theory Spec2Isabelle
  imports
    Main
    "HOL-Library.Word"
    "HOL-Library.Char_ord"
    "HOL-Library.List_Lexorder"
    "HOL-Library.Multiset"
begin

unbundle bit_operations_syntax

section \<open>Go strings and the library functions the handlers call\<close>

text \<open>
  A Go \<^verbatim>\<open>string\<close> is a sequence of bytes; it is modelled as \<^typ>\<open>string\<close>, whose
  characters are the 256 byte values.  With \<^theory_text>\<open>Char_ord\<close> and
  \<^theory_text>\<open>List_Lexorder\<close> the order on \<^typ>\<open>string\<close> is the bytewise lexicographic
  order that Go's \<^verbatim>\<open>sort.Strings\<close> and \<^verbatim>\<open><\<close> use.  A \<^verbatim>\<open>[]byte\<close> holding
  binary data is a list of 8-bit words.
\<close>

type_synonym byte = "8 word"

text \<open>\<^verbatim>\<open>strings.HasPrefix(s, prefix)\<close>.\<close>

fun HasPrefix :: "string \<Rightarrow> string \<Rightarrow> bool" where
  "HasPrefix s [] = True"
| "HasPrefix [] (p # ps) = False"
| "HasPrefix (c # s) (p # ps) = (c = p \<and> HasPrefix s ps)"

text \<open>
  \<^verbatim>\<open>strings.Split(s, sep)\<close> for a non-empty separator: the pieces between the
  non-overlapping occurrences of \<open>sep\<close>, found from the left; always at least one
  piece.  The source never passes an empty separator (Go then explodes the string into
  its UTF-8 sequences); the model returns the single piece \<open>s\<close> there.
\<close>

fun Split_from :: "string \<Rightarrow> string \<Rightarrow> string \<Rightarrow> string list" where
  "Split_from sep cur [] = [cur]"
| "Split_from sep cur (c # s) =
     (if sep \<noteq> [] \<and> HasPrefix (c # s) sep
      then cur # Split_from sep [] (drop (length sep) (c # s))
      else Split_from sep (cur @ [c]) s)"

definition Split :: "string \<Rightarrow> string \<Rightarrow> string list" where
  "Split s sep = Split_from sep [] s"

text \<open>
  \<^verbatim>\<open>strings.SplitN(s, sep, n)\<close> for \<open>n \<ge> 0\<close>: at most \<open>n\<close> pieces, the last one the
  unsplit remainder; \<open>n = 0\<close> gives the empty (nil) slice.
\<close>

fun SplitN_from :: "string \<Rightarrow> nat \<Rightarrow> string \<Rightarrow> string \<Rightarrow> string list" where
  "SplitN_from sep n cur [] = [cur]"
| "SplitN_from sep n cur (c # s) =
     (if n \<le> 1 then [cur @ c # s]
      else if sep \<noteq> [] \<and> HasPrefix (c # s) sep
      then cur # SplitN_from sep (n - 1) [] (drop (length sep) (c # s))
      else SplitN_from sep n (cur @ [c]) s)"

definition SplitN :: "string \<Rightarrow> string \<Rightarrow> nat \<Rightarrow> string list" where
  "SplitN s sep n = (if n = 0 then [] else SplitN_from sep n [] s)"

text \<open>\<^verbatim>\<open>strings.Join(elems, sep)\<close>.\<close>

fun Join :: "string list \<Rightarrow> string \<Rightarrow> string" where
  "Join [] sep = []"
| "Join [x] sep = x"
| "Join (x # y # ys) sep = x @ sep @ Join (y # ys) sep"

text \<open>
  \<^verbatim>\<open>strconv.Atoi\<close> on a 64-bit platform: an optional sign, then one or more decimal
  digits and nothing else; a value outside the \<^verbatim>\<open>int\<close> range is an error as well.
  \<open>None\<close> stands for \<^verbatim>\<open>err != nil\<close>.
\<close>

definition isDigit :: "char \<Rightarrow> bool" where
  "isDigit c = (CHR ''0'' \<le> c \<and> c \<le> CHR ''9'')"

definition digitVal :: "char \<Rightarrow> int" where
  "digitVal c = int (of_char c) - 48"

definition decimalVal :: "string \<Rightarrow> int" where
  "decimalVal ds = foldl (\<lambda>a c. 10 * a + digitVal c) 0 ds"

definition Atoi :: "string \<Rightarrow> int option" where
  "Atoi s =
     (let neg = (case s of c # r \<Rightarrow> c = CHR ''-'' | [] \<Rightarrow> False);
          ds = (case s of c # r \<Rightarrow> (if c = CHR ''-'' \<or> c = CHR ''+'' then r else s)
                | [] \<Rightarrow> []);
          v = (if neg then - decimalVal ds else decimalVal ds)
      in if ds = [] \<or> \<not> list_all isDigit ds then None
         else if v < - (2 ^ 63) \<or> 2 ^ 63 - 1 < v then None
         else Some v)"

text \<open>\<^verbatim>\<open>strconv.Itoa\<close>.\<close>

definition digitChar :: "nat \<Rightarrow> char" where
  "digitChar d = ''0123456789'' ! d"

fun natDigits :: "nat \<Rightarrow> string" where
  "natDigits n = (if n < 10 then [digitChar n] else natDigits (n div 10) @ [digitChar (n mod 10)])"

definition Itoa :: "int \<Rightarrow> string" where
  "Itoa i = (if i < 0 then CHR ''-'' # natDigits (nat (- i)) else natDigits (nat i))"

text \<open>
  \<^verbatim>\<open>strings.ToLower\<close> on the bytes \<open>A\<close>..\<open>Z\<close>.  Go maps a string with non-ASCII bytes rune
  by rune through the Unicode tables (and replaces invalid UTF-8); the model leaves every
  byte from 0x80 on as it is, so it is exact on ASCII strings.
\<close>

definition toLowerChar :: "char \<Rightarrow> char" where
  "toLowerChar c =
     (case map_of (zip ''ABCDEFGHIJKLMNOPQRSTUVWXYZ'' ''abcdefghijklmnopqrstuvwxyz'') c of
        Some l \<Rightarrow> l
      | None \<Rightarrow> c)"

definition ToLower :: "string \<Rightarrow> string" where
  "ToLower s = map toLowerChar s"

text \<open>
  \<^verbatim>\<open>strings.TrimSpace\<close>: leading and trailing white space as \<^verbatim>\<open>unicode.IsSpace\<close>
  has it, removed.  The space runes are listed by their UTF-8 encodings: tab, line feed,
  vertical tab, form feed, carriage return, space, U+0085, U+00A0, U+1680,
  U+2000..U+200A, U+2028, U+2029, U+202F, U+205F, U+3000.
\<close>

definition spaceRunes :: "string list" where
  "spaceRunes =
     [[CHR 0x09], [CHR 0x0A], [CHR 0x0B], [CHR 0x0C], [CHR 0x0D], [CHR 0x20],
      [CHR 0xC2, CHR 0x85], [CHR 0xC2, CHR 0xA0],
      [CHR 0xE1, CHR 0x9A, CHR 0x80],
      [CHR 0xE2, CHR 0x80, CHR 0x80], [CHR 0xE2, CHR 0x80, CHR 0x81],
      [CHR 0xE2, CHR 0x80, CHR 0x82], [CHR 0xE2, CHR 0x80, CHR 0x83],
      [CHR 0xE2, CHR 0x80, CHR 0x84], [CHR 0xE2, CHR 0x80, CHR 0x85],
      [CHR 0xE2, CHR 0x80, CHR 0x86], [CHR 0xE2, CHR 0x80, CHR 0x87],
      [CHR 0xE2, CHR 0x80, CHR 0x88], [CHR 0xE2, CHR 0x80, CHR 0x89],
      [CHR 0xE2, CHR 0x80, CHR 0x8A],
      [CHR 0xE2, CHR 0x80, CHR 0xA8], [CHR 0xE2, CHR 0x80, CHR 0xA9],
      [CHR 0xE2, CHR 0x80, CHR 0xAF],
      [CHR 0xE2, CHR 0x81, CHR 0x9F],
      [CHR 0xE3, CHR 0x80, CHR 0x80]]"

text \<open>The number of bytes of the rune of \<open>runes\<close> that \<open>s\<close> starts with; 0 if there is none.\<close>

definition leadingRune :: "string list \<Rightarrow> string \<Rightarrow> nat" where
  "leadingRune runes s =
     (case find (\<lambda>r. r \<noteq> [] \<and> HasPrefix s r) runes of None \<Rightarrow> 0 | Some r \<Rightarrow> length r)"

function trimFront :: "string list \<Rightarrow> string \<Rightarrow> string" where
  "trimFront runes s =
     (if s \<noteq> [] \<and> 0 < leadingRune runes s then trimFront runes (drop (leadingRune runes s) s) else s)"
  by pat_completeness auto
termination
  by (relation "measure (\<lambda>(runes, s). length s)") auto

definition TrimSpace :: "string \<Rightarrow> string" where
  "TrimSpace s = rev (trimFront (map rev spaceRunes) (rev (trimFront spaceRunes s)))"

text \<open>\<^verbatim>\<open>strings.Contains(s, substr)\<close>.\<close>

fun Contains :: "string \<Rightarrow> string \<Rightarrow> bool" where
  "Contains [] sub = (sub = [])"
| "Contains (c # s) sub = (HasPrefix (c # s) sub \<or> Contains s sub)"

section \<open>The request descriptor\<close>

text \<open>
  \<^verbatim>\<open>types.Response\<close>, \<^verbatim>\<open>types.ParsedFrame\<close> and their parts are declared in
  \<^verbatim>\<open>pkg/types\<close>; the records below carry the fields that the functions modelled here
  read or write.  A Go pointer that may be \<^verbatim>\<open>nil\<close> is an \<open>option\<close>.
\<close>

record Priority =
  Weight :: int
  DependsOn :: int
  Exclusive :: int

record ParsedFrame =
  Type :: string
  Stream :: nat
  Headers :: "string list"
  Payload :: "byte list"
  FramePriority :: "Priority option"

record Http1Details =
  Http1Headers :: "string list"

record Http2Details =
  SendFrames :: "ParsedFrame list"

record Response =
  IP :: string
  HTTPVersion :: string
  Path :: string
  Method :: string
  UserAgent :: string
  Http1 :: "Http1Details option"
  Http2 :: "Http2Details option"

section \<open>\<^verbatim>\<open>/bytes/{n}\<close>\<close>

text \<open>\<^verbatim>\<open>extractBody\<close>: the payloads of the captured DATA frames, \<^verbatim>\<open>nil\<close> without HTTP/2.\<close>

definition extractBody :: "Response \<Rightarrow> byte list" where
  "extractBody res =
     (case Http2 res of
        None \<Rightarrow> []
      | Some h2 \<Rightarrow> concat (map Payload (filter (\<lambda>frame. Type frame = ''DATA'') (SendFrames h2))))"

definition httpbinBytes :: "Response \<Rightarrow> byte list \<times> string" where
  "httpbinBytes res =
     (if (Method res = ''POST'' \<or> Method res = ''PUT'') \<and> length (extractBody res) > 0
      then (extractBody res, ''application/octet-stream'')
      else
        let parts = Split (Path res) ''/'';
            n = (if length parts \<ge> 3
                 then (case Atoi (parts ! 2) of
                         Some parsed \<Rightarrow> if parsed > 0 \<and> parsed \<le> 102400 then parsed else 100
                       | None \<Rightarrow> 100)
                 else 100)
        in (map (\<lambda>i. word_of_nat (i mod 256)) [0..<nat n], ''application/octet-stream''))"

text \<open>The path parameter of the claim: the third \<open>/\<close>-separated piece of the path, if any.\<close>

definition pathParam :: "string \<Rightarrow> string option" where
  "pathParam path = (let parts = Split path ''/'' in if length parts \<ge> 3 then Some (parts ! 2) else None)"

section \<open>\<^verbatim>\<open>/redirect/{n}\<close> and the HTTP/2 response writer\<close>

definition httpbinRedirect :: "Response \<Rightarrow> byte list \<times> string" where
  "httpbinRedirect res =
     (let parts = Split (Path res) ''/'';
          n = (if length parts \<ge> 3
               then (case Atoi (parts ! 2) of
                       Some parsed \<Rightarrow> if parsed > 0 \<and> parsed \<le> 10 then parsed else 1
                     | None \<Rightarrow> 1)
               else 1);
          location = (if n > 1 then ''/redirect/'' @ Itoa (n - 1) else ''/get'')
      in ([], ''redirect:302:'' @ location))"

text \<open>\<^verbatim>\<open>extractStatusCode\<close> (connection\_handler.go).\<close>

definition extractStatusCode :: "string \<Rightarrow> int" where
  "extractStatusCode path =
     (if \<not> HasPrefix path ''/status/'' then 200
      else let parts = Split path ''/''
           in if length parts \<ge> 3
              then (case Atoi (parts ! 2) of
                      Some code \<Rightarrow> if code \<ge> 100 \<and> code < 600 then code else 200
                    | None \<Rightarrow> 200)
              else 200)"

text \<open>
  What a task does to the connection is a list of actions in program order: a frame
  handed to the framer, a call of \<^verbatim>\<open>CloseStream\<close>, or closing the socket.  The header
  block of a written HEADERS frame is kept as the list of fields given to the HPACK
  encoder (a fresh encoder per response).
\<close>

type_synonym HeaderField = "string \<times> string"

datatype WireFrame =
    WHeaders nat "HeaderField list" bool
  | WData nat bool "byte list"
  | WSettingsAck
  | WPing bool "byte list"
  | WRSTStream nat nat
  | WGoAway nat nat string

datatype Action = Write WireFrame | CallCloseStream nat | ConnClose

text \<open>
  Modelled from the spec: \<^verbatim>\<open>utils.SplitBytesIntoChunks\<close> is not part of the sources at
  hand; the body is sent "in chunks of at most 16,384 bytes", in order.
\<close>

function SplitBytesIntoChunks :: "byte list \<Rightarrow> nat \<Rightarrow> byte list list" where
  "SplitBytesIntoChunks xs n =
     (if n = 0 \<or> length xs \<le> n then [xs] else take n xs # SplitBytesIntoChunks (drop n xs) n)"
  by pat_completeness auto
termination
  by (relation "measure (\<lambda>(xs, n). length xs)") auto

text \<open>
  The admin check of \<^verbatim>\<open>sendResponse\<close>.  \<^verbatim>\<open>srv.GetAdmin()\<close> is configuration: its
  two results \<open>key\<close> and \<open>isKeySet\<close> are parameters.
\<close>

definition isAdminH2 :: "string \<Rightarrow> bool \<Rightarrow> string \<Rightarrow> Response \<Rightarrow> bool" where
  "isAdminH2 key isKeySet method resp =
     (if isKeySet \<and> method = ''OPTIONS'' then True
      else if isKeySet
      then (case Http2 resp of
              None \<Rightarrow> False
            | Some h2 \<Rightarrow>
                list_ex (\<lambda>f. Type f = ''HEADERS'' \<and> list_ex (\<lambda>h. HasPrefix h key) (Headers f))
                  (SendFrames h2))
      else False)"

text \<open>
  The \<^verbatim>\<open>redirect:STATUS:LOCATION\<close> and \<^verbatim>\<open>set-cookies:C1|C2:MIME\<close> directives of
  \<^verbatim>\<open>sendResponse\<close>, applied in this order to (body, content type, status, extra
  header fields).
\<close>

definition applyRedirect ::
  "byte list \<times> string \<times> int \<times> HeaderField list \<Rightarrow> byte list \<times> string \<times> int \<times> HeaderField list" where
  "applyRedirect st =
     (case st of (res, ctype, statusCode, extraHeaders) \<Rightarrow>
        if HasPrefix ctype ''redirect:''
        then (let parts = SplitN ctype '':'' 3
              in if length parts \<ge> 3
                 then ([],
                       ''text/html; charset=utf-8'',
                       (case Atoi (parts ! 1) of Some code \<Rightarrow> code | None \<Rightarrow> statusCode),
                       extraHeaders @ [(''location'', parts ! 2)])
                 else st)
        else st)"

definition applySetCookies ::
  "byte list \<times> string \<times> int \<times> HeaderField list \<Rightarrow> byte list \<times> string \<times> int \<times> HeaderField list" where
  "applySetCookies st =
     (case st of (res, ctype, statusCode, extraHeaders) \<Rightarrow>
        if HasPrefix ctype ''set-cookies:''
        then (let parts = SplitN ctype '':'' 3
              in if length parts \<ge> 3
                 then (res, parts ! 2, statusCode,
                       extraHeaders @ map (\<lambda>cookie. (''set-cookie'', cookie)) (Split (parts ! 1) ''|''))
                 else st)
        else st)"

definition contentEncoding :: "string \<Rightarrow> HeaderField list" where
  "contentEncoding path =
     (if HasPrefix path ''/gzip'' then [(''content-encoding'', ''gzip'')]
      else if HasPrefix path ''/deflate'' then [(''content-encoding'', ''deflate'')]
      else if HasPrefix path ''/brotli'' then [(''content-encoding'', ''br'')]
      else [])"

definition corsHeaders :: "HeaderField list" where
  "corsHeaders =
     [(''access-control-allow-origin'', ''*''),
      (''access-control-allow-methods'', ''*''),
      (''access-control-allow-headers'', ''*'')]"

text \<open>The advertisement \<^verbatim>\<open>h3=":443"; ma=86400\<close>; byte 0x22 is the double quote.\<close>

definition altSvc :: string where
  "altSvc = ''h3='' @ [CHR 0x22] @ '':443'' @ [CHR 0x22] @ ''; ma=86400''"

fun dataFrames :: "nat \<Rightarrow> byte list list \<Rightarrow> Action list" where
  "dataFrames streamID [] = []"
| "dataFrames streamID [chunk] = [Write (WData streamID True chunk)]"
| "dataFrames streamID (chunk # rest) = Write (WData streamID False chunk) # dataFrames streamID rest"

text \<open>
  \<^verbatim>\<open>HTTP2Connection.sendResponse\<close>.  Parameters standing for what the function takes
  from outside: \<open>Router\<close> (package-level function, not part of the sources at hand),
  \<open>key\<close>/\<open>isKeySet\<close> (\<^verbatim>\<open>GetAdmin\<close>), \<open>requestID\<close> (random), \<open>responseTime\<close>
  (clock) and \<open>writeFails\<close> (whether \<^verbatim>\<open>WriteHeaders\<close> returns an error, after which
  the function returns without closing the stream).
\<close>

definition sendResponse ::
  "(string \<Rightarrow> Response \<Rightarrow> byte list \<times> string) \<Rightarrow> string \<Rightarrow> bool \<Rightarrow> string \<Rightarrow> int \<Rightarrow> bool
     \<Rightarrow> nat \<Rightarrow> Response \<Rightarrow> string \<Rightarrow> string \<Rightarrow> Action list" where
  "sendResponse Router key isKeySet requestID responseTime writeFails streamID resp path method =
     (case applySetCookies (applyRedirect
              (fst (Router path resp), snd (Router path resp), extractStatusCode path, [])) of
        (res, ctype, statusCode, extraHeaders) \<Rightarrow>
          let fields =
                [('':status'', Itoa statusCode),
                 (''server'', ''TrackMe.peet.ws''),
                 (''content-length'', Itoa (int (length res))),
                 (''content-type'', ctype),
                 (''x-request-id'', requestID),
                 (''x-response-time'', Itoa responseTime)]
                @ extraHeaders
                @ contentEncoding path
                @ [(''alt-svc'', altSvc)]
                @ (if isAdminH2 key isKeySet method resp then corsHeaders else []);
              headers = Write (WHeaders streamID fields (length res = 0))
          in if writeFails then [headers]
             else headers
                  # (if length res > 0 then dataFrames streamID (SplitBytesIntoChunks res 16384) else [])
                  @ [CallCloseStream streamID])"

section \<open>The HTTP/1.1 line engine\<close>

text \<open>
  \<^verbatim>\<open>parseHTTP1\<close>.  \<^verbatim>\<open>lines[0]\<close> exists, since \<^verbatim>\<open>strings.Split\<close> returns at least one
  piece, and \<^verbatim>\<open>strings.Split(line, ":")[1]\<close> exists for a line that contains a colon.
  The descriptor for a malformed first line leaves every other field at its zero value;
  in particular \<^verbatim>\<open>Http1\<close> is \<^verbatim>\<open>nil\<close>.
\<close>

definition parseUserAgent :: "string list \<Rightarrow> string" where
  "parseUserAgent lines =
     foldl (\<lambda>userAgent line.
              if Contains line '':'' \<and> HasPrefix (ToLower line) ''user-agent''
              then TrimSpace (Split line '':'' ! 1) else userAgent) [] lines"

definition parseHTTP1 :: "string \<Rightarrow> Response" where
  "parseHTTP1 request =
     (let lines = Split request [CHR 0x0D, CHR 0x0A];
          firstLine = Split (hd lines) '' '';
          headers = filter (\<lambda>line. Contains line '':'') lines;
          userAgent = parseUserAgent lines
      in if length firstLine \<noteq> 3
         then \<lparr>IP = [], HTTPVersion = ''--'', Path = ''--'', Method = ''--'', UserAgent = [],
                Http1 = None, Http2 = None\<rparr>
         else \<lparr>IP = [], HTTPVersion = firstLine ! 2, Path = firstLine ! 1,
                Method = firstLine ! 0, UserAgent = userAgent,
                Http1 = Some \<lparr>Http1Headers = headers\<rparr>, Http2 = None\<rparr>)"

text \<open>A Go panic is an error value of the model.\<close>

datatype Panic = NilPointerDereference

definition crlf :: string where
  "crlf = [CHR 0x0D, CHR 0x0A]"

text \<open>\<^verbatim>\<open>string(res)\<close> for a byte slice.\<close>

definition bytesToString :: "byte list \<Rightarrow> string" where
  "bytesToString bs = map (\<lambda>b. char_of (unat b)) bs"

definition applyRedirectH1 ::
  "byte list \<times> string \<times> int \<times> string list \<Rightarrow> byte list \<times> string \<times> int \<times> string list" where
  "applyRedirectH1 st =
     (case st of (res, ctype, statusCode, extraHeaders) \<Rightarrow>
        if HasPrefix ctype ''redirect:''
        then (let parts = SplitN ctype '':'' 3
              in if length parts \<ge> 3
                 then ([],
                       ''text/html; charset=utf-8'',
                       (case Atoi (parts ! 1) of Some code \<Rightarrow> code | None \<Rightarrow> statusCode),
                       extraHeaders @ [''Location: '' @ parts ! 2])
                 else st)
        else st)"

definition applySetCookiesH1 ::
  "byte list \<times> string \<times> int \<times> string list \<Rightarrow> byte list \<times> string \<times> int \<times> string list" where
  "applySetCookiesH1 st =
     (case st of (res, ctype, statusCode, extraHeaders) \<Rightarrow>
        if HasPrefix ctype ''set-cookies:''
        then (let parts = SplitN ctype '':'' 3
              in if length parts \<ge> 3
                 then (res, parts ! 2, statusCode,
                       extraHeaders @ map (\<lambda>cookie. ''Set-Cookie: '' @ cookie) (Split (parts ! 1) ''|''))
                 else st)
        else st)"

definition contentEncodingH1 :: "string \<Rightarrow> string" where
  "contentEncodingH1 path =
     (if HasPrefix path ''/gzip'' then ''Content-Encoding: gzip'' @ crlf
      else if HasPrefix path ''/deflate'' then ''Content-Encoding: deflate'' @ crlf
      else if HasPrefix path ''/brotli'' then ''Content-Encoding: br'' @ crlf
      else [])"

text \<open>
  What the HTTP/1.1 engine does to the socket: the bytes it writes, then closing it.
\<close>

datatype SocketAction = ConnWrite string | ConnCloseH1

text \<open>
  \<^verbatim>\<open>Server.respondToHTTP1\<close>.  Parameters: \<open>Router\<close>, \<open>StatusText\<close>
  (\<^verbatim>\<open>http.StatusText\<close>), \<open>key\<close>/\<open>isKeySet\<close> (\<^verbatim>\<open>GetAdmin\<close>), \<open>requestID\<close>,
  \<open>responseTime\<close>, and \<open>writeFails\<close> (\<^verbatim>\<open>conn.Write\<close> returning an error).  With an admin
  key configured the function ranges over \<^verbatim>\<open>resp.Http1.Headers\<close>, which dereferences
  \<^verbatim>\<open>resp.Http1\<close>.
\<close>

definition respondToHTTP1 ::
  "(string \<Rightarrow> Response \<Rightarrow> byte list \<times> string) \<Rightarrow> (int \<Rightarrow> string) \<Rightarrow> string \<Rightarrow> bool
     \<Rightarrow> string \<Rightarrow> int \<Rightarrow> bool \<Rightarrow> Response \<Rightarrow> Panic + SocketAction list" where
  "respondToHTTP1 Router StatusText key isKeySet requestID responseTime writeFails resp =
     (let routed = (if Method resp \<noteq> ''OPTIONS'' then Router (Path resp) resp else ([], ''text/plain''));
          isAdmin0 = (Method resp = ''OPTIONS'')
      in if isKeySet \<and> Http1 resp = None then Inl NilPointerDereference
         else
           let isAdmin = (isAdmin0 \<or> (isKeySet \<and>
                 (case Http1 resp of
                    None \<Rightarrow> False
                  | Some h1 \<Rightarrow> list_ex (\<lambda>a. HasPrefix a key) (Http1Headers h1))))
           in (case applySetCookiesH1 (applyRedirectH1
                      (fst routed, snd routed, extractStatusCode (Path resp), [])) of
                 (res, ctype, statusCode, extraHeaders) \<Rightarrow>
                   let res1 =
                         ''HTTP/1.1 '' @ Itoa statusCode @ '' '' @ StatusText statusCode @ crlf
                         @ ''Content-Length: '' @ Itoa (int (length res)) @ crlf
                         @ ''Content-Type: '' @ ctype @ ''; charset=utf-8'' @ crlf
                         @ ''X-Request-Id: '' @ requestID @ crlf
                         @ ''X-Response-Time: '' @ Itoa responseTime @ crlf
                         @ concat (map (\<lambda>h. h @ crlf) extraHeaders)
                         @ contentEncodingH1 (Path resp)
                         @ (if isAdmin
                            then ''Access-Control-Allow-Origin: *'' @ crlf
                                 @ ''Access-Control-Allow-Methods: *'' @ crlf
                                 @ ''Access-Control-Allow-Headers: *'' @ crlf
                            else [])
                         @ ''Server: TrackMe'' @ crlf
                         @ ''Alt-Svc: '' @ altSvc @ crlf
                         @ crlf
                         @ bytesToString res
                         @ crlf @ crlf
                   in Inr (if writeFails then [ConnWrite res1] else [ConnWrite res1, ConnCloseH1])))"

section \<open>SHA-256 and \<^verbatim>\<open>utils.SHA256trunc\<close>\<close>

text \<open>
  Modelled from the spec: \<^verbatim>\<open>utils.SHA256trunc\<close> is not part of the sources at hand; the
  hashed fingerprint parts are "SHA-256 of the raw string, truncated to 12 lowercase hex
  chars".  SHA-256 is written out after FIPS 180-4: the message bytes are padded with
  0x80, zeros and the 64-bit big-endian bit length, cut in 64-byte blocks, and each block
  is run through the 64-round compression function on 32-bit words.  The round constants
  \<open>K256\<close> (from the cube roots of the first 64 primes) and the initial hash value
  \<open>H256\<close> (from the square roots of the first 8 primes) are written in decimal.
\<close>

type_synonym word32 = "32 word"

definition K256 :: "word32 list" where
  "K256 =
     [1116352408, 1899447441, 3049323471, 3921009573, 961987163,
      1508970993, 2453635748, 2870763221, 3624381080, 310598401,
      607225278, 1426881987, 1925078388, 2162078206, 2614888103,
      3248222580, 3835390401, 4022224774, 264347078, 604807628,
      770255983, 1249150122, 1555081692, 1996064986, 2554220882,
      2821834349, 2952996808, 3210313671, 3336571891, 3584528711,
      113926993, 338241895, 666307205, 773529912, 1294757372,
      1396182291, 1695183700, 1986661051, 2177026350, 2456956037,
      2730485921, 2820302411, 3259730800, 3345764771, 3516065817,
      3600352804, 4094571909, 275423344, 430227734, 506948616,
      659060556, 883997877, 958139571, 1322822218, 1537002063,
      1747873779, 1955562222, 2024104815, 2227730452, 2361852424,
      2428436474, 2756734187, 3204031479, 3329325298]"

definition H256 :: "word32 list" where
  "H256 =
     [1779033703, 3144134277, 1013904242, 2773480762, 1359893119,
      2600822924, 528734635, 1541459225]"

definition rotr :: "nat \<Rightarrow> word32 \<Rightarrow> word32" where
  "rotr n x = drop_bit n x OR push_bit (32 - n) x"

definition Ch :: "word32 \<Rightarrow> word32 \<Rightarrow> word32 \<Rightarrow> word32" where
  "Ch x y z = (x AND y) XOR (NOT x AND z)"

definition Maj :: "word32 \<Rightarrow> word32 \<Rightarrow> word32 \<Rightarrow> word32" where
  "Maj x y z = (x AND y) XOR (x AND z) XOR (y AND z)"

definition bsig0 :: "word32 \<Rightarrow> word32" where
  "bsig0 x = rotr 2 x XOR rotr 13 x XOR rotr 22 x"

definition bsig1 :: "word32 \<Rightarrow> word32" where
  "bsig1 x = rotr 6 x XOR rotr 11 x XOR rotr 25 x"

definition ssig0 :: "word32 \<Rightarrow> word32" where
  "ssig0 x = rotr 7 x XOR rotr 18 x XOR drop_bit 3 x"

definition ssig1 :: "word32 \<Rightarrow> word32" where
  "ssig1 x = rotr 17 x XOR rotr 19 x XOR drop_bit 10 x"

definition sha256_pad :: "nat list \<Rightarrow> nat list" where
  "sha256_pad bs =
     bs @ [128] @ replicate ((119 - length bs mod 64) mod 64) 0
        @ map (\<lambda>i. (8 * length bs) div 256 ^ (7 - i) mod 256) [0..<8]"

fun be32 :: "nat list \<Rightarrow> word32 list" where
  "be32 (a # b # c # d # r) = word_of_nat (((a * 256 + b) * 256 + c) * 256 + d) # be32 r"
| "be32 r = []"

fun schedule :: "nat \<Rightarrow> word32 list \<Rightarrow> word32 list" where
  "schedule 0 w = w"
| "schedule (Suc k) w =
     schedule k (w @ [ssig1 (w ! (length w - 2)) + w ! (length w - 7)
                      + ssig0 (w ! (length w - 15)) + w ! (length w - 16)])"

definition sha256_round :: "word32 list \<Rightarrow> word32 \<times> word32 \<Rightarrow> word32 list" where
  "sha256_round st kw =
     (case st of
        [a, b, c, d, e, f, g, h] \<Rightarrow>
          (let t1 = h + bsig1 e + Ch e f g + fst kw + snd kw;
               t2 = bsig0 a + Maj a b c
           in [t1 + t2, a, b, c, d + t1, e, f, g])
      | _ \<Rightarrow> st)"

definition sha256_block :: "word32 list \<Rightarrow> nat list \<Rightarrow> word32 list" where
  "sha256_block hs block =
     map2 (+) hs (foldl sha256_round hs (zip K256 (schedule 48 (be32 block))))"

function blocks64 :: "nat list \<Rightarrow> nat list list" where
  "blocks64 bs = (if length bs < 64 then [] else take 64 bs # blocks64 (drop 64 bs))"
  by pat_completeness auto
termination
  by (relation "measure length") auto

definition sha256 :: "nat list \<Rightarrow> word32 list" where
  "sha256 bs = foldl sha256_block H256 (blocks64 (sha256_pad bs))"

definition hexDigit :: "nat \<Rightarrow> char" where
  "hexDigit d = ''0123456789abcdef'' ! d"

definition hex32 :: "word32 \<Rightarrow> string" where
  "hex32 w = map (\<lambda>i. hexDigit (unat w div 16 ^ (7 - i) mod 16)) [0..<8]"

definition sha256_hex :: "string \<Rightarrow> string" where
  "sha256_hex s = concat (map hex32 (sha256 (map of_char s)))"

definition SHA256trunc :: "string \<Rightarrow> string" where
  "SHA256trunc s = take 12 (sha256_hex s)"

section \<open>The parsed ClientHello and JA4\<close>

text \<open>
  \<^verbatim>\<open>ClientHello\<close> is declared in a file of package \<^verbatim>\<open>tls\<close> that is not part of the
  sources at hand.  The record carries the fields the fingerprint functions read, and
  two that \<^verbatim>\<open>HandleTLSConnection\<close> copies into the response but no fingerprint reads
  (\<open>SessionID\<close>, \<open>ClientRandom\<close>); the identifiers of TLS are 16-bit values.  An element of \<^verbatim>\<open>Extensions\<close> is an
  \<^verbatim>\<open>interface{}\<close>: \<open>MapExt v\<close> is a \<^verbatim>\<open>map[string]interface{}\<close> where \<open>v\<close> is the
  entry \<^verbatim>\<open>server_name\<close> if it is present and a string, \<open>StructExt name serverName\<close> is
  the struct with the fields \<^verbatim>\<open>Name\<close> and \<^verbatim>\<open>ServerName\<close>, and \<open>OtherExt\<close> is anything
  else.
\<close>

type_synonym word16 = "16 word"

datatype Extension = MapExt "string option" | StructExt string string | OtherExt

record ClientHello =
  Version :: word16
  SessionID :: string
  ClientRandom :: string
  CipherSuites :: "word16 list"
  AllExtensions :: "word16 list"
  Extensions :: "Extension list"
  SupportedGroups :: "word16 list"
  SupportedPoints :: "byte list"
  SupportedProtocols :: "string list"
  SignatureAlgorithms :: "word16 list"

text \<open>
  Modelled from the spec: \<^verbatim>\<open>types.IsGrease\<close> and \<^verbatim>\<open>types.GetCipherSuiteName\<close> are not
  part of the sources at hand.  The source applies \<^verbatim>\<open>IsGrease\<close> to a rendering of the
  identifier (the cipher-suite name, or \<^verbatim>\<open>0x%04X\<close> of an extension); the spec gives the
  rule on the value: "a value v is GREASE iff v & 0x0F0F == 0x0A0A and both bytes equal".
\<close>

definition IsGrease :: "word16 \<Rightarrow> bool" where
  "IsGrease v = (v AND 0x0F0F = 0x0A0A \<and> drop_bit 8 v = v AND 0x00FF)"

text \<open>
  Modelled from the spec: \<^verbatim>\<open>getOrReturnOG\<close> is not part of the sources at hand.  After
  its name and its call sites it yields the value the map has for the key and, when the
  map has none, the key itself.  The map is an association list of distinct keys.
\<close>

definition getOrReturnOG :: "string \<Rightarrow> (string \<times> string) list \<Rightarrow> string" where
  "getOrReturnOG k m = (case map_of m k of Some v \<Rightarrow> v | None \<Rightarrow> k)"

definition tlsVersionMapping :: "(string \<times> string) list" where
  "tlsVersionMapping = [(''769'', ''10''), (''770'', ''11''), (''771'', ''12''), (''772'', ''13'')]"

definition httpVersionMapping :: "(string \<times> string) list" where
  "httpVersionMapping =
     [(''h2'', ''h2''), (''h3'', ''h3''), (''2'', ''h2''),
      (''1.1'', ''h1''), (''1.0'', ''h1''), (''0.9'', ''h1'')]"

text \<open>
  \<^verbatim>\<open>detectSNI\<close>.  \<^verbatim>\<open>net.ParseIP(s) != nil\<close> is the parameter \<open>ParseIP\<close>.
\<close>

fun detectSNI :: "(string \<Rightarrow> bool) \<Rightarrow> Extension list \<Rightarrow> string" where
  "detectSNI ParseIP [] = ''d''"
| "detectSNI ParseIP (MapExt (Some serverName) # exts) =
     (if serverName \<noteq> [] then (if ParseIP serverName then ''i'' else ''d'')
      else detectSNI ParseIP exts)"
| "detectSNI ParseIP (StructExt name serverName # exts) =
     (if serverName \<noteq> [] then (if ParseIP serverName then ''i'' else ''d'')
      else detectSNI ParseIP exts)"
| "detectSNI ParseIP (ext # exts) = detectSNI ParseIP exts"

text \<open>\<^verbatim>\<open>%04x\<close> of a 16-bit value, and \<^verbatim>\<open>%02d\<close> of a count.\<close>

definition hex4 :: "word16 \<Rightarrow> string" where
  "hex4 w = map (\<lambda>i. hexDigit (unat w div 16 ^ (3 - i) mod 16)) [0..<4]"

definition fmt02d :: "nat \<Rightarrow> string" where
  "fmt02d n = (if n < 10 then CHR ''0'' # natDigits n else natDigits n)"

text \<open>
  \<^verbatim>\<open>string(b)\<close> of a byte \<open>b\<close> is the UTF-8 encoding of the code point \<open>b\<close>: the byte
  itself below 128, two bytes from 128 on.
\<close>

definition byteToString :: "char \<Rightarrow> string" where
  "byteToString b =
     (if of_char b < (128::nat) then [b]
      else [char_of (192 + of_char b div (64::nat)), char_of (128 + of_char b mod (64::nat))])"

definition firstALPN :: "string list \<Rightarrow> string" where
  "firstALPN protocols =
     (case protocols of
        [] \<Rightarrow> ''00''
      | alpn # _ \<Rightarrow>
          (case map_of httpVersionMapping alpn of
             Some mapped \<Rightarrow> mapped
           | None \<Rightarrow>
               (case map_of httpVersionMapping (ToLower alpn) of
                  Some mapped \<Rightarrow> mapped
                | None \<Rightarrow>
                    if length alpn \<ge> 2
                    then byteToString (alpn ! 0) @ byteToString (alpn ! (length alpn - 1))
                    else if length alpn = 1
                    then byteToString (alpn ! 0) @ byteToString (alpn ! 0)
                    else ''00'')))"

definition ja4a_direct :: "(string \<Rightarrow> bool) \<Rightarrow> ClientHello \<Rightarrow> string \<Rightarrow> string" where
  "ja4a_direct ParseIP parsed negotiatedVersion =
     (let proto = ''t'';
          tlsVersion = getOrReturnOG negotiatedVersion tlsVersionMapping;
          sniMode = detectSNI ParseIP (Extensions parsed);
          numSuites = min 99 (length (filter (\<lambda>cipher. \<not> IsGrease cipher) (CipherSuites parsed)));
          numExtensions = min 99 (length (filter
              (\<lambda>ext. \<not> IsGrease ext \<and> ext \<noteq> 0x0000 \<and> ext \<noteq> 0x0010) (AllExtensions parsed)))
      in proto @ tlsVersion @ sniMode @ fmt02d numSuites @ fmt02d numExtensions
         @ firstALPN (SupportedProtocols parsed))"

definition ja4b_r_direct :: "ClientHello \<Rightarrow> string" where
  "ja4b_r_direct parsed =
     Join (sort (map hex4 (filter (\<lambda>cipher. \<not> IsGrease cipher) (CipherSuites parsed)))) '',''"

definition ja4b_direct :: "ClientHello \<Rightarrow> string" where
  "ja4b_direct parsed =
     (if ja4b_r_direct parsed = [] then ''000000000000'' else SHA256trunc (ja4b_r_direct parsed))"

definition ja4c_r_direct :: "ClientHello \<Rightarrow> string" where
  "ja4c_r_direct parsed =
     (let extensions = sort (map hex4 (filter
              (\<lambda>ext. \<not> IsGrease ext \<and> ext \<noteq> 0x0000 \<and> ext \<noteq> 0x0010 \<and> ext \<noteq> 0x0015)
              (AllExtensions parsed)));
          sigAlgs = map hex4 (SignatureAlgorithms parsed);
          result = Join extensions '',''
      in if length sigAlgs > 0 then result @ ''_'' @ Join sigAlgs '','' else result)"

definition ja4c_direct :: "ClientHello \<Rightarrow> string" where
  "ja4c_direct parsed =
     (if ja4c_r_direct parsed = [] then ''000000000000'' else SHA256trunc (ja4c_r_direct parsed))"

definition CalculateJa4Direct :: "(string \<Rightarrow> bool) \<Rightarrow> ClientHello \<Rightarrow> string \<Rightarrow> string" where
  "CalculateJa4Direct ParseIP parsed negotiatedVersion =
     ja4a_direct ParseIP parsed negotiatedVersion @ ''_'' @ ja4b_direct parsed @ ''_'' @ ja4c_direct parsed"

definition CalculateJa4Direct_r :: "(string \<Rightarrow> bool) \<Rightarrow> ClientHello \<Rightarrow> string \<Rightarrow> string" where
  "CalculateJa4Direct_r ParseIP parsed negotiatedVersion =
     ja4a_direct ParseIP parsed negotiatedVersion @ ''_'' @ ja4b_r_direct parsed
       @ ''_'' @ ja4c_r_direct parsed"

text \<open>
  Part C as the specification words it: the kept extension identifiers sorted ascending
  as numbers and then rendered, an underscore and the signature algorithms in wire order,
  the suffix left out when there is no signature algorithm.
\<close>

definition spec_ja4c_raw :: "ClientHello \<Rightarrow> string" where
  "spec_ja4c_raw parsed =
     Join (map hex4 (sort (filter
             (\<lambda>ext. \<not> IsGrease ext \<and> ext \<notin> {0x0000, 0x0010, 0x0015}) (AllExtensions parsed)))) '',''
     @ (if SignatureAlgorithms parsed = [] then []
        else ''_'' @ Join (map hex4 (SignatureAlgorithms parsed)) '','')"

section \<open>JA4H\<close>

definition getMethodPrefix :: "string \<Rightarrow> string" where
  "getMethodPrefix method = (let m = ToLower method in if length m \<ge> 2 then take 2 m else m)"

definition getVersionString :: "string \<Rightarrow> string" where
  "getVersionString httpVersion =
     (let v = ToLower httpVersion
      in if v \<in> set [''http/0.9'', ''0.9''] then ''09''
         else if v \<in> set [''http/1.0'', ''1.0''] then ''10''
         else if v \<in> set [''http/1.1'', ''1.1'', ''http/1''] then ''11''
         else if v \<in> set [''http/2'', ''http/2.0'', ''h2'', ''2'', ''2.0''] then ''2''
         else if v \<in> set [''http/3'', ''http/3.0'', ''h3'', ''3'', ''3.0''] then ''3''
         else ''00'')"

definition extractHeaderName :: "string \<Rightarrow> string" where
  "extractHeaderName header =
     (let parts = SplitN header '':'' 2
      in if length parts > 0 then ToLower (TrimSpace (parts ! 0)) else [])"

definition isCookieHeader :: "string \<Rightarrow> bool" where
  "isCookieHeader header = HasPrefix (ToLower header) ''cookie:''"

definition isRefererHeader :: "string \<Rightarrow> bool" where
  "isRefererHeader header =
     (HasPrefix (ToLower header) ''referer:'' \<or> HasPrefix (ToLower header) ''referrer:'')"

definition headerNames :: "string list \<Rightarrow> string list" where
  "headerNames headers =
     filter (\<lambda>name. name \<noteq> [])
       (map extractHeaderName
          (filter (\<lambda>header. \<not> (isCookieHeader header \<or> isRefererHeader header)) headers))"

definition calculateHeaderHash :: "string list \<Rightarrow> string" where
  "calculateHeaderHash headers =
     (let filtered = sort (headerNames headers)
      in if length filtered = 0 then ''000000000000'' else SHA256trunc (Join filtered '',''))"

definition extractCookieValue :: "string \<Rightarrow> string" where
  "extractCookieValue header =
     (let parts = SplitN header '':'' 2
      in if length parts = 2 then TrimSpace (parts ! 1) else [])"

definition cookieValues :: "string list \<Rightarrow> string list" where
  "cookieValues headers =
     filter (\<lambda>value. value \<noteq> []) (map extractCookieValue (filter isCookieHeader headers))"

definition calculateCookieHash :: "string list \<Rightarrow> string" where
  "calculateCookieHash headers =
     (let cookies = cookieValues headers
      in if length cookies = 0 then ''000000000000'' else SHA256trunc (Join (sort cookies) '';''))"

definition countHeaders :: "string list \<Rightarrow> nat" where
  "countHeaders headers =
     length (filter (\<lambda>header. \<not> isCookieHeader header \<and> \<not> isRefererHeader header) headers)"

definition CalculateJA4H :: "string \<Rightarrow> string \<Rightarrow> string list \<Rightarrow> string" where
  "CalculateJA4H method httpVersion headers =
     getMethodPrefix method @ getVersionString httpVersion @ fmt02d (min 99 (countHeaders headers))
       @ ''_'' @ calculateHeaderHash headers @ ''_'' @ calculateCookieHash headers"

definition CalculateJA4H_r :: "string \<Rightarrow> string \<Rightarrow> string list \<Rightarrow> string" where
  "CalculateJA4H_r method httpVersion headers =
     (let filtered = sort (headerNames headers);
          cookies = sort (cookieValues headers);
          headerList = (if Join filtered '','' = [] then ''none'' else Join filtered '','');
          cookieList = (if Join cookies '';'' = [] then ''none'' else Join cookies '';'')
      in getMethodPrefix method @ getVersionString httpVersion @ fmt02d (min 99 (length filtered))
           @ ''_'' @ headerList @ ''_'' @ cookieList)"

section \<open>Regular expressions\<close>

text \<open>
  The shape of a fingerprint is given as a regular expression.  Expressions without
  iteration suffice (a bounded repetition \<open>r{n}\<close> is \<open>n\<close> copies of \<open>r\<close> in sequence);
  \<open>matches\<close> decides, by Brzozowski derivatives, whether the whole string matches.
\<close>

datatype rexp =
    RNone
  | REps
  | RChar char
  | RRange char char
  | RAlt rexp rexp
  | RSeq rexp rexp

fun nullable :: "rexp \<Rightarrow> bool" where
  "nullable RNone = False"
| "nullable REps = True"
| "nullable (RChar a) = False"
| "nullable (RRange lo hi) = False"
| "nullable (RAlt r s) = (nullable r \<or> nullable s)"
| "nullable (RSeq r s) = (nullable r \<and> nullable s)"

fun deriv :: "char \<Rightarrow> rexp \<Rightarrow> rexp" where
  "deriv c RNone = RNone"
| "deriv c REps = RNone"
| "deriv c (RChar a) = (if c = a then REps else RNone)"
| "deriv c (RRange lo hi) = (if lo \<le> c \<and> c \<le> hi then REps else RNone)"
| "deriv c (RAlt r s) = RAlt (deriv c r) (deriv c s)"
| "deriv c (RSeq r s) =
     (if nullable r then RAlt (RSeq (deriv c r) s) (deriv c s) else RSeq (deriv c r) s)"

definition matches :: "rexp \<Rightarrow> string \<Rightarrow> bool" where
  "matches r s = nullable (foldl (\<lambda>r c. deriv c r) r s)"

fun lang :: "rexp \<Rightarrow> string set" where
  "lang RNone = {}"
| "lang REps = {[]}"
| "lang (RChar a) = {[a]}"
| "lang (RRange lo hi) = {[c] | c. lo \<le> c \<and> c \<le> hi}"
| "lang (RAlt r s) = lang r \<union> lang s"
| "lang (RSeq r s) = {u @ v | u v. u \<in> lang r \<and> v \<in> lang s}"

fun RStr :: "string \<Rightarrow> rexp" where
  "RStr [] = REps"
| "RStr (c # cs) = RSeq (RChar c) (RStr cs)"

fun RRep :: "nat \<Rightarrow> rexp \<Rightarrow> rexp" where
  "RRep 0 r = REps"
| "RRep (Suc n) r = RSeq r (RRep n r)"

text \<open>The classes \<^verbatim>\<open>[0-9]\<close>, \<^verbatim>\<open>[0-9a-z]\<close> and \<^verbatim>\<open>[0-9a-f]\<close>.\<close>

definition rxDigit :: rexp where
  "rxDigit = RRange CHR ''0'' CHR ''9''"

definition rxLowerAlnum :: rexp where
  "rxLowerAlnum = RAlt (RRange CHR ''0'' CHR ''9'') (RRange CHR ''a'' CHR ''z'')"

definition rxHex :: rexp where
  "rxHex = RAlt (RRange CHR ''0'' CHR ''9'') (RRange CHR ''a'' CHR ''f'')"

text \<open>
  \<^verbatim>\<open>t(10|11|12|13)[di][0-9]{2}[0-9]{2}(h1|h2|h3|[0-9a-z]{2})_[0-9a-f]{12}_[0-9a-f]{12}\<close>
\<close>

definition ja4_regex :: rexp where
  "ja4_regex =
     RSeq (RChar CHR ''t'')
    (RSeq (RAlt (RStr ''10'') (RAlt (RStr ''11'') (RAlt (RStr ''12'') (RStr ''13''))))
    (RSeq (RAlt (RChar CHR ''d'') (RChar CHR ''i''))
    (RSeq (RRep 2 rxDigit)
    (RSeq (RRep 2 rxDigit)
    (RSeq (RAlt (RStr ''h1'') (RAlt (RStr ''h2'') (RAlt (RStr ''h3'') (RRep 2 rxLowerAlnum))))
    (RSeq (RChar CHR ''_'')
    (RSeq (RRep 12 rxHex)
    (RSeq (RChar CHR ''_'')
          (RRep 12 rxHex)))))))))"

text \<open>
  The first ALPN value leaves part A inside \<^verbatim>\<open>(h1|h2|h3|[0-9a-z]{2})\<close>: there is none,
  or it is empty, or it is one of the mapped protocol names (as it stands or lowercased),
  or its first and its last byte are in \<^verbatim>\<open>[0-9a-z]\<close>.
\<close>

definition isLowerAlnum :: "char \<Rightarrow> bool" where
  "isLowerAlnum c = (CHR ''0'' \<le> c \<and> c \<le> CHR ''9'' \<or> CHR ''a'' \<le> c \<and> c \<le> CHR ''z'')"

definition alpnInShape :: "string list \<Rightarrow> bool" where
  "alpnInShape protocols =
     (case protocols of
        [] \<Rightarrow> True
      | alpn # _ \<Rightarrow>
          alpn = []
          \<or> map_of httpVersionMapping alpn \<noteq> None
          \<or> map_of httpVersionMapping (ToLower alpn) \<noteq> None
          \<or> (isLowerAlnum (hd alpn) \<and> isLowerAlnum (last alpn)))"

section \<open>HTTP/2 streams and the body channel\<close>

text \<open>
  \<^verbatim>\<open>HTTP2Stream\<close> with the fields that decide when \<^verbatim>\<open>close(stream.response)\<close> runs.
  One history field is added to observe the executions: \<open>closeCalls\<close> counts the
  executions of \<^verbatim>\<open>close(stream.response)\<close> on the object.
\<close>

datatype StreamState = StreamOpen | StreamHalfClosedRemote | StreamHalfClosedLocal | StreamClosed

record HTTP2Stream =
  streamID :: nat
  streamState :: StreamState
  bodyClosed :: bool
  closeCalls :: nat





text \<open>
  The guarded close that both paths run while holding \<^verbatim>\<open>stream.mu\<close>:
  \<^verbatim>\<open>if !stream.bodyClosed { close(stream.response); stream.bodyClosed = true }\<close>.
\<close>

definition closeBody :: "HTTP2Stream \<Rightarrow> HTTP2Stream" where
  "closeBody s =
     (if \<not> bodyClosed s then s\<lparr>closeCalls := closeCalls s + 1, bodyClosed := True\<rparr> else s)"












section \<open>HPACK decoding and the captured HEADERS frames\<close>

text \<open>
  \<^verbatim>\<open>hpack.Decoder\<close> belongs to the library \<^verbatim>\<open>golang.org/x/net/http2/hpack\<close>; it is
  modelled after RFC 7541, which the library implements.  A header block is a byte
  string, that is a \<^typ>\<open>string\<close>.  The static table is Appendix A of the RFC.
\<close>

definition staticTable :: "HeaderField list" where
  "staticTable =
     [('':authority'', []), ('':method'', ''GET''), ('':method'', ''POST''), ('':path'', ''/''),
      ('':path'', ''/index.html''), ('':scheme'', ''http''), ('':scheme'', ''https''),
      ('':status'', ''200''), ('':status'', ''204''), ('':status'', ''206''),
      ('':status'', ''304''), ('':status'', ''400''), ('':status'', ''404''),
      ('':status'', ''500''), (''accept-charset'', []), (''accept-encoding'', ''gzip, deflate''),
      (''accept-language'', []), (''accept-ranges'', []), (''accept'', []),
      (''access-control-allow-origin'', []), (''age'', []), (''allow'', []),
      (''authorization'', []), (''cache-control'', []), (''content-disposition'', []),
      (''content-encoding'', []), (''content-language'', []), (''content-length'', []),
      (''content-location'', []), (''content-range'', []), (''content-type'', []),
      (''cookie'', []), (''date'', []), (''etag'', []), (''expect'', []), (''expires'', []),
      (''from'', []), (''host'', []), (''if-match'', []), (''if-modified-since'', []),
      (''if-none-match'', []), (''if-range'', []), (''if-unmodified-since'', []),
      (''last-modified'', []), (''link'', []), (''location'', []), (''max-forwards'', []),
      (''proxy-authenticate'', []), (''proxy-authorization'', []), (''range'', []),
      (''referer'', []), (''refresh'', []), (''retry-after'', []), (''server'', []),
      (''set-cookie'', []), (''strict-transport-security'', []), (''transfer-encoding'', []),
      (''user-agent'', []), (''vary'', []), (''via'', []), (''www-authenticate'', [])]"

text \<open>
  The decoder: the dynamic table with the newest entry first, its current maximum size,
  the maximum the decoder allows (the argument of \<^verbatim>\<open>NewDecoder\<close>), and whether the next
  representation is the first of its header block.
\<close>

record Decoder =
  dynTab :: "HeaderField list"
  maxSize :: nat
  allowedMaxSize :: nat
  firstField :: bool

definition NewDecoder :: "nat \<Rightarrow> Decoder" where
  "NewDecoder maxDynamicTableSize =
     \<lparr>dynTab = [], maxSize = maxDynamicTableSize, allowedMaxSize = maxDynamicTableSize,
      firstField = True\<rparr>"

text \<open>The size of an entry is the length of its name and value plus 32 (RFC 7541, 4.1).\<close>

definition tableSize :: "HeaderField list \<Rightarrow> nat" where
  "tableSize ents = sum_list (map (\<lambda>hf. length (fst hf) + length (snd hf) + 32) ents)"

text \<open>Eviction drops the oldest entries until the table fits (4.2 to 4.4).\<close>

function evict :: "nat \<Rightarrow> HeaderField list \<Rightarrow> HeaderField list" where
  "evict limit ents =
     (if ents \<noteq> [] \<and> limit < tableSize ents then evict limit (butlast ents) else ents)"
  by pat_completeness auto
termination
  by (relation "measure (\<lambda>(limit, ents). length ents)") auto

declare evict.simps [simp del]

text \<open>Index 0 is invalid, 1 to 61 is the static table, the dynamic table follows (2.3.3).\<close>

definition tableAt :: "Decoder \<Rightarrow> nat \<Rightarrow> HeaderField option" where
  "tableAt d i =
     (if i = 0 then None
      else if i \<le> length staticTable then Some (staticTable ! (i - 1))
      else if i - length staticTable \<le> length (dynTab d)
      then Some (dynTab d ! (i - length staticTable - 1))
      else None)"

text \<open>
  The two kinds of failure of the decoder: \<^verbatim>\<open>errNeedMore\<close>, when the block ends inside a
  representation, and a \<^verbatim>\<open>DecodingError\<close>.
\<close>

datatype DecodeError = ErrNeedMore | DecodingError

text \<open>
  An integer with an \<open>n\<close>-bit prefix (5.1).  The library gives up on an integer whose
  continuation runs to a shift of 63 bits.
\<close>

fun readVarIntMore :: "nat \<Rightarrow> nat \<Rightarrow> string \<Rightarrow> DecodeError + nat \<times> string" where
  "readVarIntMore i m [] = Inl ErrNeedMore"
| "readVarIntMore i m (b # p) =
     (if of_char b < (128::nat) then Inr (i + of_char b * 2 ^ m, p)
      else if 63 \<le> m + 7 then Inl DecodingError
      else readVarIntMore (i + (of_char b mod 128) * 2 ^ m) (m + 7) p)"

definition readVarInt :: "nat \<Rightarrow> string \<Rightarrow> DecodeError + nat \<times> string" where
  "readVarInt n p =
     (case p of
        [] \<Rightarrow> Inl ErrNeedMore
      | b # rest \<Rightarrow>
          if of_char b mod 2 ^ n < (2 ^ n - 1 :: nat) then Inr (of_char b mod 2 ^ n, rest)
          else readVarIntMore (2 ^ n - 1) 0 rest)"

text \<open>
  A string literal (5.2): the flag H, the length with a 7-bit prefix, the octets.
  \<^verbatim>\<open>readString\<close> cuts the octets out of the block, \<^verbatim>\<open>decodeString\<close> decodes them when
  the flag is set.  The Huffman code of Appendix B is the parameter \<open>huffman\<close>.
\<close>

type_synonym undecodedString = "bool \<times> string"

definition readString :: "string \<Rightarrow> DecodeError + undecodedString \<times> string" where
  "readString p =
     (case readVarInt 7 p of
        Inl err \<Rightarrow> Inl err
      | Inr (strLen, rest) \<Rightarrow>
          if length rest < strLen then Inl ErrNeedMore
          else Inr (((128::nat) \<le> of_char (hd p), take strLen rest), drop strLen rest))"

definition decodeString :: "(string \<Rightarrow> string option) \<Rightarrow> undecodedString \<Rightarrow> DecodeError + string" where
  "decodeString huffman u =
     (if fst u
      then (case huffman (snd u) of None \<Rightarrow> Inl DecodingError | Some s \<Rightarrow> Inr s)
      else Inr (snd u))"

text \<open>
  One representation (section 6).  The result is the decoder after it, the field it emits
  if it emits one, and the rest of the block, or the failure; a representation that fails
  leaves the decoder as it was.  A literal reads its name and its value before it decodes
  either (a name taken from a table needs no decoding: it is carried as a string without
  the flag H), and with incremental indexing it enters the table.  A size update is
  refused in the middle of a block unless the table is empty, and beyond the allowed
  maximum.
\<close>

definition parseFieldLiteral ::
  "(string \<Rightarrow> string option) \<Rightarrow> Decoder \<Rightarrow> nat \<Rightarrow> bool \<Rightarrow> string
     \<Rightarrow> DecodeError + Decoder \<times> HeaderField option \<times> string" where
  "parseFieldLiteral huffman d n indexed p =
     (case readVarInt n p of
        Inl err \<Rightarrow> Inl err
      | Inr (nameIdx, rest) \<Rightarrow>
          (case (if 0 < nameIdx
                 then (case tableAt d nameIdx of
                         None \<Rightarrow> Inl DecodingError
                       | Some hf \<Rightarrow> Inr ((False, fst hf), rest))
                 else readString rest) of
             Inl err \<Rightarrow> Inl err
           | Inr (undecodedName, rest1) \<Rightarrow>
               (case readString rest1 of
                  Inl err \<Rightarrow> Inl err
                | Inr (undecodedValue, rest2) \<Rightarrow>
                    (case decodeString huffman undecodedName of
                       Inl err \<Rightarrow> Inl err
                     | Inr name \<Rightarrow>
                         (case decodeString huffman undecodedValue of
                            Inl err \<Rightarrow> Inl err
                          | Inr val \<Rightarrow>
                              Inr ((if indexed
                                    then d\<lparr>dynTab := evict (maxSize d) ((name, val) # dynTab d)\<rparr>
                                    else d),
                                   Some (name, val), rest2))))))"

definition parseFieldIndexed ::
  "Decoder \<Rightarrow> string \<Rightarrow> DecodeError + Decoder \<times> HeaderField option \<times> string" where
  "parseFieldIndexed d p =
     (case readVarInt 7 p of
        Inl err \<Rightarrow> Inl err
      | Inr (idx, rest) \<Rightarrow>
          (case tableAt d idx of None \<Rightarrow> Inl DecodingError | Some hf \<Rightarrow> Inr (d, Some hf, rest)))"

definition parseDynamicTableSizeUpdate ::
  "Decoder \<Rightarrow> string \<Rightarrow> DecodeError + Decoder \<times> HeaderField option \<times> string" where
  "parseDynamicTableSizeUpdate d p =
     (if \<not> firstField d \<and> 0 < tableSize (dynTab d) then Inl DecodingError
      else (case readVarInt 5 p of
              Inl err \<Rightarrow> Inl err
            | Inr (newSize, rest) \<Rightarrow>
                if allowedMaxSize d < newSize then Inl DecodingError
                else Inr (d\<lparr>maxSize := newSize, dynTab := evict newSize (dynTab d)\<rparr>, None, rest)))"

text \<open>
  The first byte selects the representation: \<^verbatim>\<open>1xxxxxxx\<close> indexed, \<^verbatim>\<open>01xxxxxx\<close> literal
  with incremental indexing, \<^verbatim>\<open>0000xxxx\<close> literal without indexing, \<^verbatim>\<open>0001xxxx\<close> literal
  never indexed, \<^verbatim>\<open>001xxxxx\<close> size update.
\<close>

definition parseHeaderFieldRepr ::
  "(string \<Rightarrow> string option) \<Rightarrow> Decoder \<Rightarrow> string
     \<Rightarrow> DecodeError + Decoder \<times> HeaderField option \<times> string" where
  "parseHeaderFieldRepr huffman d p =
     (if (128::nat) \<le> of_char (hd p) then parseFieldIndexed d p
      else if (64::nat) \<le> of_char (hd p) then parseFieldLiteral huffman d 6 True p
      else if of_char (hd p) < (16::nat) then parseFieldLiteral huffman d 4 False p
      else if of_char (hd p) < (32::nat) then parseFieldLiteral huffman d 4 False p
      else parseDynamicTableSizeUpdate d p)"

text \<open>
  The loop of \<^verbatim>\<open>Decoder.Write\<close> over the representations of a block, collecting the
  emitted fields.  The decoder is returned also when the block is refused: what went
  into the table before the failure stays there.  After a representation that did not
  stop for want of bytes the decoder is no longer at the first field of a block, also
  when the representation was refused; a block that ends inside a representation is
  refused by \<^verbatim>\<open>Close\<close>, which then leaves that mark as it is.
\<close>

lemma readVarIntMore_shorter:
  "readVarIntMore i m p = Inr (v, rest) \<Longrightarrow> length rest < length p"
  by (induction i m p rule: readVarIntMore.induct) (auto split: if_splits)

lemma readVarInt_shorter: "readVarInt n p = Inr (v, rest) \<Longrightarrow> length rest < length p"
  by (cases p) (auto simp: readVarInt_def split: if_splits dest: readVarIntMore_shorter)

lemma readString_shorter:
  assumes "readString p = Inr (u, rest)"
  shows "length rest < length p"
proof -
  from assms obtain strLen rest0 where r: "readVarInt 7 p = Inr (strLen, rest0)"
    by (auto simp: readString_def split: sum.splits)
  with assms have "rest = drop strLen rest0"
    by (auto simp: readString_def split: sum.splits if_splits)
  with readVarInt_shorter [OF r] show ?thesis by simp
qed

lemma parseFieldLiteral_shorter:
  assumes "parseFieldLiteral huffman d n indexed p = Inr (d', f, rest)"
  shows "length rest < length p"
proof -
  from assms obtain nameIdx rest0 where r0: "readVarInt n p = Inr (nameIdx, rest0)"
    by (auto simp: parseFieldLiteral_def split: sum.splits)
  from assms r0 obtain undecodedName rest1 where
    r1: "(if 0 < nameIdx
          then (case tableAt d nameIdx of
                  None \<Rightarrow> Inl DecodingError
                | Some hf \<Rightarrow> Inr ((False, fst hf), rest0))
          else readString rest0) = Inr (undecodedName, rest1)"
    by (auto simp: parseFieldLiteral_def split: sum.splits)
  from assms r0 r1 obtain undecodedValue where r2: "readString rest1 = Inr (undecodedValue, rest)"
    by (auto simp: parseFieldLiteral_def split: sum.splits)
  have "length rest1 \<le> length rest0"
  proof (cases "0 < nameIdx")
    case True
    with r1 show ?thesis by (auto split: option.splits)
  next
    case False
    with r1 have "readString rest0 = Inr (undecodedName, rest1)" by simp
    from readString_shorter [OF this] show ?thesis by simp
  qed
  with readVarInt_shorter [OF r0] readString_shorter [OF r2] show ?thesis by simp
qed

lemma parseFieldIndexed_shorter:
  assumes "parseFieldIndexed d p = Inr (d', f, rest)"
  shows "length rest < length p"
proof -
  from assms obtain idx where "readVarInt 7 p = Inr (idx, rest)"
    by (auto simp: parseFieldIndexed_def split: sum.splits option.splits)
  then show ?thesis by (rule readVarInt_shorter)
qed

lemma parseDynamicTableSizeUpdate_shorter:
  assumes "parseDynamicTableSizeUpdate d p = Inr (d', f, rest)"
  shows "length rest < length p"
proof -
  from assms obtain newSize where "readVarInt 5 p = Inr (newSize, rest)"
    by (cases "readVarInt 5 p") (auto simp: parseDynamicTableSizeUpdate_def split: if_splits)
  then show ?thesis by (rule readVarInt_shorter)
qed

lemma parseHeaderFieldRepr_shorter:
  "parseHeaderFieldRepr huffman d p = Inr (d', f, rest) \<Longrightarrow> length rest < length p"
  unfolding parseHeaderFieldRepr_def
  by (metis parseFieldIndexed_shorter parseFieldLiteral_shorter parseDynamicTableSizeUpdate_shorter)

function decodeBlock ::
  "(string \<Rightarrow> string option) \<Rightarrow> Decoder \<Rightarrow> string \<Rightarrow> HeaderField list
     \<Rightarrow> Decoder \<times> HeaderField list option" where
  "decodeBlock huffman d p acc =
     (if p = [] then (d, Some acc)
      else (case parseHeaderFieldRepr huffman d p of
              Inl err \<Rightarrow> ((if err = ErrNeedMore then d else d\<lparr>firstField := False\<rparr>), None)
            | Inr (d', f, rest) \<Rightarrow>
                decodeBlock huffman (d'\<lparr>firstField := False\<rparr>) rest
                  (acc @ (case f of None \<Rightarrow> [] | Some hf \<Rightarrow> [hf]))))"
  by pat_completeness auto
termination
  by (relation "measure (\<lambda>(huffman, d, p, acc). length p)")
     (auto dest: parseHeaderFieldRepr_shorter)

declare decodeBlock.simps [simp del]

text \<open>
  \<^verbatim>\<open>Decoder.DecodeFull\<close>: the fields of a whole block, or \<open>None\<close> when the block is
  refused; after a block that decoded, the next representation is again a first one.
\<close>

definition DecodeFull ::
  "(string \<Rightarrow> string option) \<Rightarrow> Decoder \<Rightarrow> string \<Rightarrow> Decoder \<times> HeaderField list option" where
  "DecodeFull huffman d p =
     (case decodeBlock huffman d p [] of
        (d', None) \<Rightarrow> (d', None)
      | (d', Some hfs) \<Rightarrow> (d'\<lparr>firstField := True\<rparr>, Some hfs))"

text \<open>
  A received HEADERS frame: stream id, header block fragment, END\_STREAM, and the
  priority (weight, stream dependency, exclusive) when the frame has one.
\<close>

datatype HeadersFrame = HeadersFrame nat string bool "(nat \<times> nat \<times> bool) option"

text \<open>\<^verbatim>\<open>strings.Trim(s, cutset)\<close> for a cutset of ASCII bytes, and \<^verbatim>\<open>strings.Replace(s, old, new, -1)\<close>.\<close>

definition Trim :: "string \<Rightarrow> string \<Rightarrow> string" where
  "Trim s cutset =
     rev (dropWhile (\<lambda>c. c \<in> set cutset) (rev (dropWhile (\<lambda>c. c \<in> set cutset) s)))"

fun ReplaceAll :: "string \<Rightarrow> string \<Rightarrow> string \<Rightarrow> string" where
  "ReplaceAll [] old new = []"
| "ReplaceAll (c # s) old new =
     (if old \<noteq> [] \<and> HasPrefix (c # s) old
      then new @ ReplaceAll (drop (length old) (c # s)) old new
      else c # ReplaceAll s old new)"

text \<open>
  The rendering of a decoded field in \<^verbatim>\<open>convertFrame\<close>: \<^verbatim>\<open>%q: %q\<close>, the outer quotes
  trimmed, the inner \<^verbatim>\<open>": "\<close> replaced by \<^verbatim>\<open>: \<close>.  The quoting of \<^verbatim>\<open>%q\<close>
  (\<^verbatim>\<open>strconv.Quote\<close>) is the parameter \<open>Quote\<close>.
\<close>

definition renderHeader :: "(string \<Rightarrow> string) \<Rightarrow> HeaderField \<Rightarrow> string" where
  "renderHeader Quote hf =
     ReplaceAll (Trim (Quote (fst hf) @ '': '' @ Quote (snd hf)) [CHR 0x22])
       ([CHR 0x22] @ '': '' @ [CHR 0x22]) '': ''"

text \<open>
  \<^verbatim>\<open>convertFrame\<close> on a HEADERS frame (the fields \<^verbatim>\<open>Length\<close> and \<^verbatim>\<open>Flags\<close> of the parsed
  frame are left out).  The block is decoded with a decoder made for this one frame; on
  a decoding error the parsed frame is returned without headers and without priority.
\<close>

definition convertFrame ::
  "(string \<Rightarrow> string) \<Rightarrow> (string \<Rightarrow> string option) \<Rightarrow> HeadersFrame \<Rightarrow> ParsedFrame" where
  "convertFrame Quote huffman frame =
     (case frame of HeadersFrame sid fragment ended priority \<Rightarrow>
        (case snd (DecodeFull huffman (NewDecoder 4096) fragment) of
           None \<Rightarrow>
             \<lparr>Type = ''HEADERS'', Stream = sid, Headers = [], Payload = [], FramePriority = None\<rparr>
         | Some h2Headers \<Rightarrow>
             \<lparr>Type = ''HEADERS'', Stream = sid, Headers = map (renderHeader Quote) h2Headers,
              Payload = [],
              FramePriority =
                map_option (\<lambda>(weight, dep, excl).
                    \<lparr>Weight = int weight + 1, DependsOn = int dep,
                     Exclusive = (if excl then 1 else 0)\<rparr>) priority\<rparr>))"

text \<open>
  What the frame loop keeps for the HEADERS frames of a connection: the decoder of the
  connection, the connection-level frames, the captured frames of each stream, the
  requests handed to \<^verbatim>\<open>handleRequest\<close> (stream id, decoded header fields, END\_STREAM) and
  the frames written.  The captured frames are kept by stream id.  \<^verbatim>\<open>CloseStream\<close>, after
  which a frame with the id of a released stream starts a new stream with no captured
  frames, is not a step of this part of the model: it describes the HEADERS frames of a
  connection with one HEADERS frame for each stream id.
\<close>

record FrameLoopState =
  hpackDecoder :: Decoder
  connectionFrames :: "ParsedFrame list"
  streamFrames :: "nat \<Rightarrow> ParsedFrame list"
  requests :: "(nat \<times> HeaderField list \<times> bool) list"
  written :: "WireFrame list"

definition newFrameLoopState :: FrameLoopState where
  "newFrameLoopState =
     \<lparr>hpackDecoder = NewDecoder 4096, connectionFrames = [], streamFrames = (\<lambda>sid. []),
      requests = [], written = []\<rparr>"

text \<open>
  The HEADERS case of \<^verbatim>\<open>processFrames\<close>; \<^verbatim>\<open>http2.ErrCodeProtocol\<close> is 1.  No other
  kind of frame touches the decoder or a header list.
\<close>

definition processHeadersFrame ::
  "(string \<Rightarrow> string) \<Rightarrow> (string \<Rightarrow> string option) \<Rightarrow> FrameLoopState \<Rightarrow> HeadersFrame
     \<Rightarrow> FrameLoopState" where
  "processHeadersFrame Quote huffman c frame =
     (case frame of HeadersFrame sid fragment ended priority \<Rightarrow>
        let parsedFrame = convertFrame Quote huffman frame;
            c1 = (if sid = 0
                  then c\<lparr>connectionFrames := connectionFrames c @ [parsedFrame]\<rparr> else c);
            c2 = c1\<lparr>streamFrames := (streamFrames c1)(sid := streamFrames c1 sid @ [parsedFrame])\<rparr>;
            decoded = DecodeFull huffman (hpackDecoder c2) fragment
        in (case snd decoded of
              None \<Rightarrow> c2\<lparr>hpackDecoder := fst decoded, written := written c2 @ [WRSTStream sid 1]\<rparr>
            | Some headers \<Rightarrow>
                c2\<lparr>hpackDecoder := fst decoded,
                   requests := requests c2 @ [(sid, headers, ended)]\<rparr>))"

text \<open>
  The JA4H of \<^verbatim>\<open>handleRequest\<close> for a stream: the method is the value of the last
  \<^verbatim>\<open>:method\<close> field handed over, the header list is collected from the captured HEADERS
  frames of the connection and of the stream.
\<close>

definition requestMethod :: "HeaderField list \<Rightarrow> string" where
  "requestMethod headers =
     foldl (\<lambda>method h. if fst h = '':method'' then snd h else method) [] headers"

definition requestJA4H :: "FrameLoopState \<Rightarrow> nat \<Rightarrow> HeaderField list \<Rightarrow> string" where
  "requestJA4H c sid headers =
     CalculateJA4H (requestMethod headers) ''h2''
       (concat (map Headers (filter (\<lambda>frame. Type frame = ''HEADERS'')
          (connectionFrames c @ streamFrames c sid))))"

section \<open>Verified properties\<close>

subsection \<open>\<^verbatim>\<open>/bytes/{n}\<close>\<close>

text \<open>
  Claim C10.  A GET request to \<^verbatim>\<open>/bytes/{n}\<close> never fails: the handler returns a body
  with \<open>byte[i] = i mod 256\<close> and the content type \<^verbatim>\<open>application/octet-stream\<close>.  When
  the path parameter is absent, is not accepted by \<^verbatim>\<open>strconv.Atoi\<close>, is zero or negative,
  or exceeds 102400, the body has the default length 100; only a parameter \<open>k\<close> with
  \<open>1 \<le> k \<le> 102400\<close> changes the length, to \<open>k\<close>.
\<close>

theorem httpbinBytes_fallback:
  assumes "Method res = ''GET''"
  shows "snd (httpbinBytes res) = ''application/octet-stream''
    \<and> (\<forall>i < length (fst (httpbinBytes res)). fst (httpbinBytes res) ! i = word_of_nat (i mod 256))
    \<and> ((pathParam (Path res) = None
         \<or> (\<exists>s. pathParam (Path res) = Some s
               \<and> (Atoi s = None \<or> (\<exists>k. Atoi s = Some k \<and> (k \<le> 0 \<or> 102400 < k)))))
        \<longrightarrow> length (fst (httpbinBytes res)) = 100)
    \<and> (\<forall>s k. pathParam (Path res) = Some s \<and> Atoi s = Some k \<and> 1 \<le> k \<and> k \<le> 102400
        \<longrightarrow> length (fst (httpbinBytes res)) = nat k)"
  using assms
  by (auto simp: httpbinBytes_def pathParam_def Let_def split: option.splits if_splits)

theorem httpbinBytes_fallback_witness:
  "Method \<lparr>IP = [], HTTPVersion = ''h2'', Path = ''/bytes/-5'', Method = ''GET'',
      UserAgent = [], Http1 = None, Http2 = None\<rparr> = ''GET''
   \<and> length (fst (httpbinBytes \<lparr>IP = [], HTTPVersion = ''h2'', Path = ''/bytes/-5'',
      Method = ''GET'', UserAgent = [], Http1 = None, Http2 = None\<rparr>)) = 100"
  using httpbinBytes_fallback [of "\<lparr>IP = [], HTTPVersion = ''h2'', Path = ''/bytes/-5'',
      Method = ''GET'', UserAgent = [], Http1 = None, Http2 = None\<rparr>"]
  by (simp add: pathParam_def Split_def Atoi_def decimalVal_def digitVal_def isDigit_def)

subsection \<open>\<^verbatim>\<open>/redirect/{n}\<close> over HTTP/2\<close>

lemma small_int_cases:
  "1 \<le> n \<Longrightarrow> n \<le> 10 \<Longrightarrow> n \<in> {1, 2, 3, 4, 5, 6, 7, 8, 9, 10 :: int}"
  by (simp; arith)

lemma httpbinRedirect_location:
  assumes "1 \<le> n" "n \<le> 10" "Path resp = ''/redirect/'' @ Itoa n"
  shows "httpbinRedirect resp =
     ([], ''redirect:302:'' @ (if n > 1 then ''/redirect/'' @ Itoa (n - 1) else ''/get''))"
  using small_int_cases [OF assms(1,2)] assms(3)
  by (elim insertE emptyE)
     (simp_all add: httpbinRedirect_def Itoa_def digitChar_def Split_def Atoi_def
        decimalVal_def digitVal_def isDigit_def)

lemma applyRedirect_302:
  assumes "1 \<le> n" "n \<le> 10"
  shows "applyRedirect (body, ''redirect:302:'' @ (if n > 1 then ''/redirect/'' @ Itoa (n - 1) else ''/get''), code, extra)
    = ([], ''text/html; charset=utf-8'', 302, extra @ [(''location'', if n > 1 then ''/redirect/'' @ Itoa (n - 1) else ''/get'')])"
  using small_int_cases [OF assms(1,2)]
  by (elim insertE emptyE)
     (simp_all add: applyRedirect_def Itoa_def digitChar_def SplitN_def Atoi_def
        decimalVal_def digitVal_def isDigit_def)

text \<open>
  Claim C6.  For a request whose path is \<^verbatim>\<open>/redirect/n\<close> with \<open>1 \<le> n \<le> 10\<close>, the handler
  returns an empty body and the tag \<^verbatim>\<open>redirect:302:<next>\<close>, where \<open>next\<close> is
  \<^verbatim>\<open>/redirect/(n-1)\<close> for \<open>n > 1\<close> and \<^verbatim>\<open>/get\<close> for \<open>n = 1\<close>.  Given that the router
  hands the request to this handler and the framer accepts the write, the HTTP/2 engine
  then performs exactly two actions: it writes one HEADERS frame on the stream, with
  \<^verbatim>\<open>:status\<close> 302, \<^verbatim>\<open>content-length\<close> 0, \<^verbatim>\<open>location\<close> equal to \<open>next\<close> and END\_STREAM set
  (no DATA frame follows), and it releases the stream.  It writes no GOAWAY and does not
  close the socket.
\<close>

theorem redirect_h2:
  assumes "1 \<le> n" and "n \<le> 10"
    and "Path resp = ''/redirect/'' @ Itoa n"
    and "Router (Path resp) resp = httpbinRedirect resp"
  shows "httpbinRedirect resp =
           ([], ''redirect:302:'' @ (if n > 1 then ''/redirect/'' @ Itoa (n - 1) else ''/get''))
    \<and> sendResponse Router key isKeySet requestID responseTime False sid resp (Path resp) method =
        [Write (WHeaders sid
           ([('':status'', ''302''),
             (''server'', ''TrackMe.peet.ws''),
             (''content-length'', ''0''),
             (''content-type'', ''text/html; charset=utf-8''),
             (''x-request-id'', requestID),
             (''x-response-time'', Itoa responseTime),
             (''location'', if n > 1 then ''/redirect/'' @ Itoa (n - 1) else ''/get''),
             (''alt-svc'', altSvc)]
            @ (if isAdminH2 key isKeySet method resp then corsHeaders else []))
           True),
         CallCloseStream sid]"
proof -
  let ?next = "if n > 1 then ''/redirect/'' @ Itoa (n - 1) else ''/get''"
  have handler: "httpbinRedirect resp = ([], ''redirect:302:'' @ ?next)"
    by (rule httpbinRedirect_location [OF assms(1-3)])
  have status: "extractStatusCode (Path resp) = 200"
    by (simp add: extractStatusCode_def assms(3))
  have enc: "contentEncoding (Path resp) = []"
    by (simp add: contentEncoding_def assms(3))
  have cookies: "applySetCookies ([], ''text/html; charset=utf-8'', 302, [(''location'', ?next)])
      = ([], ''text/html; charset=utf-8'', 302, [(''location'', ?next)])"
    by (simp add: applySetCookies_def)
  have engine: "applySetCookies (applyRedirect
      (fst (Router (Path resp) resp), snd (Router (Path resp) resp), extractStatusCode (Path resp), []))
      = ([], ''text/html; charset=utf-8'', 302, [(''location'', ?next)])"
    unfolding assms(4) handler fst_conv snd_conv status applyRedirect_302 [OF assms(1,2)]
    using cookies by simp
  have itoa: "Itoa 302 = ''302''" "Itoa 0 = ''0''"
    by (simp_all add: Itoa_def digitChar_def)
  show ?thesis
    unfolding sendResponse_def engine
    using handler enc itoa by (simp add: Let_def)
qed

theorem redirect_h2_witness:
  "sendResponse (\<lambda>path res. httpbinRedirect res) [] False ''r1'' 0 False 1
     \<lparr>IP = [], HTTPVersion = ''h2'', Path = ''/redirect/2'', Method = ''GET'',
        UserAgent = [], Http1 = None, Http2 = None\<rparr> ''/redirect/2'' ''GET'' =
   [Write (WHeaders 1
      [('':status'', ''302''),
       (''server'', ''TrackMe.peet.ws''),
       (''content-length'', ''0''),
       (''content-type'', ''text/html; charset=utf-8''),
       (''x-request-id'', ''r1''),
       (''x-response-time'', ''0''),
       (''location'', ''/redirect/1''),
       (''alt-svc'', altSvc)]
      True),
    CallCloseStream 1]"
  using redirect_h2 [of 2
      "\<lparr>IP = [], HTTPVersion = ''h2'', Path = ''/redirect/2'', Method = ''GET'',
         UserAgent = [], Http1 = None, Http2 = None\<rparr>"
      "\<lambda>path res. httpbinRedirect res" "[]" False "''r1''" 0 1 "''GET''"]
  by (simp add: Itoa_def digitChar_def isAdminH2_def)

subsection \<open>JA4H\<close>

lemmas ja4h_defs =
  CalculateJA4H_def CalculateJA4H_r_def getMethodPrefix_def getVersionString_def
  countHeaders_def calculateHeaderHash_def calculateCookieHash_def headerNames_def
  cookieValues_def extractHeaderName_def extractCookieValue_def isCookieHeader_def
  isRefererHeader_def ToLower_def toLowerChar_def SplitN_def TrimSpace_def leadingRune_def
  spaceRunes_def fmt02d_def digitChar_def

text \<open>
  Claim C4.  For method \<^verbatim>\<open>GET\<close>, version \<^verbatim>\<open>HTTP/2\<close> and the headers
  \<^verbatim>\<open>user-agent: x\<close>, \<^verbatim>\<open>accept: */*\<close>, the JA4H string is \<^verbatim>\<open>ge202\<close>, an underscore, the
  first 12 hex characters of the SHA-256 of \<^verbatim>\<open>accept,user-agent\<close>, an underscore, and
  \<^verbatim>\<open>000000000000\<close>.
\<close>

theorem ja4h_trivial_get:
  "CalculateJA4H ''GET'' ''HTTP/2'' [''user-agent: x'', ''accept: */*'']
     = ''ge202'' @ ''_'' @ take 12 (sha256_hex ''accept,user-agent'') @ ''_'' @ ''000000000000''"
  by (simp add: ja4h_defs SHA256trunc_def)

text \<open>
  Claim C5 says that JA4H and JA4H\_r always share their first segment.  They do not:
  JA4H counts every header that is neither Cookie nor Referer, JA4H\_r counts only those
  of them whose name is not empty.  The name is what precedes the first colon, so it is
  empty for every HTTP/2 pseudo-header.  For the headers \<^verbatim>\<open>:method: GET\<close>,
  \<^verbatim>\<open>user-agent: x\<close> the first segments are \<^verbatim>\<open>ge202\<close> and \<^verbatim>\<open>ge201\<close>.
\<close>

theorem ja4h_prefix_mismatch:
  "CalculateJA4H ''GET'' ''h2'' ['':method: GET'', ''user-agent: x'']
     = ''ge202'' @ ''_'' @ SHA256trunc ''user-agent'' @ ''_'' @ ''000000000000''
   \<and> CalculateJA4H_r ''GET'' ''h2'' ['':method: GET'', ''user-agent: x'']
     = ''ge201'' @ ''_'' @ ''user-agent'' @ ''_'' @ ''none''"
  by (simp add: ja4h_defs)

text \<open>
  The two counts agree exactly when no counted header has an empty name; the header
  list and cookie list of the raw form are \<^verbatim>\<open>none\<close> exactly when the hashed form has
  \<^verbatim>\<open>000000000000\<close>.
\<close>

lemma headerNames_le_countHeaders: "length (headerNames headers) \<le> countHeaders headers"
proof -
  have "length (headerNames headers)
      \<le> length (map extractHeaderName
            (filter (\<lambda>header. \<not> (isCookieHeader header \<or> isRefererHeader header)) headers))"
    unfolding headerNames_def by (rule length_filter_le)
  then show ?thesis by (simp add: countHeaders_def)
qed

subsection \<open>The HTTP/1.1 line engine\<close>

lemma parseHTTP1_malformed:
  assumes "length (Split (hd (Split request crlf)) '' '') \<noteq> 3"
  shows "Method (parseHTTP1 request) = ''--'' \<and> Path (parseHTTP1 request) = ''--''
     \<and> HTTPVersion (parseHTTP1 request) = ''--'' \<and> Http1 (parseHTTP1 request) = None"
  using assms by (simp add: parseHTTP1_def crlf_def Let_def)

lemma respondToHTTP1_without_admin_key:
  "\<exists>bytes. respondToHTTP1 Router StatusText key False requestID responseTime False resp
      = Inr [ConnWrite bytes, ConnCloseH1]"
  by (simp add: respondToHTTP1_def Let_def split: prod.splits)

text \<open>
  Claim C8.  A request whose first line is not three tokens is parsed to the descriptor
  with \<^verbatim>\<open>--\<close> in method, path and version; that much holds.  The descriptor has no
  \<^verbatim>\<open>Http1\<close> part, and \<^verbatim>\<open>respondToHTTP1\<close> reads \<^verbatim>\<open>resp.Http1.Headers\<close> whenever an admin
  key is configured: for the request \<^verbatim>\<open>GARBAGE\<close> the engine then panics instead of
  writing a response, whatever the router returns.
\<close>

theorem respondToHTTP1_malformed_panics:
  "Method (parseHTTP1 (''GARBAGE'' @ crlf @ crlf)) = ''--''
   \<and> Path (parseHTTP1 (''GARBAGE'' @ crlf @ crlf)) = ''--''
   \<and> HTTPVersion (parseHTTP1 (''GARBAGE'' @ crlf @ crlf)) = ''--''
   \<and> respondToHTTP1 Router StatusText key True requestID responseTime writeFails
        (parseHTTP1 (''GARBAGE'' @ crlf @ crlf)) = Inl NilPointerDereference"
  by (simp add: parseHTTP1_def respondToHTTP1_def crlf_def Split_def Let_def)

subsection \<open>Regular expressions\<close>

lemma nullable_iff: "nullable r \<longleftrightarrow> [] \<in> lang r"
  by (induction r) auto

lemma lang_deriv: "lang (deriv c r) = {s. c # s \<in> lang r}"
proof (induction r)
  case (RSeq r1 r2)
  then show ?case
    by (auto simp: nullable_iff Cons_eq_append_conv)
qed auto

lemma matches_iff_lang: "matches r s \<longleftrightarrow> s \<in> lang r"
proof -
  have "nullable (foldl (\<lambda>r c. deriv c r) r s) \<longleftrightarrow> s \<in> lang r" for r
  proof (induction s arbitrary: r)
    case Nil
    then show ?case by (simp add: nullable_iff)
  next
    case (Cons c s)
    then show ?case by (simp add: lang_deriv)
  qed
  then show ?thesis by (simp add: matches_def)
qed

lemma lang_RSeqI: "u \<in> lang r \<Longrightarrow> v \<in> lang s \<Longrightarrow> u @ v \<in> lang (RSeq r s)"
  by auto

lemma lang_RStr: "s \<in> lang (RStr s)"
  by (induction s) auto

lemma lang_RRep:
  "length xs = n \<Longrightarrow> (\<forall>c \<in> set xs. [c] \<in> lang r) \<Longrightarrow> xs \<in> lang (RRep n r)"
proof (induction n arbitrary: xs)
  case 0
  then show ?case by simp
next
  case (Suc n)
  then obtain c cs where xs: "xs = c # cs" and len: "length cs = n"
    by (cases xs) auto
  from Suc.prems(2) xs have "[c] \<in> lang r" "\<forall>c \<in> set cs. [c] \<in> lang r" by auto
  with Suc.IH [OF len] have "[c] @ cs \<in> lang (RSeq r (RRep n r))"
    by (intro lang_RSeqI) auto
  then show ?case by (simp add: xs)
qed

subsection \<open>The shape of JA4\<close>

lemma length_sha256_round: "length st = 8 \<Longrightarrow> length (sha256_round st kw) = 8"
  by (auto simp: sha256_round_def Let_def split: list.splits)

lemma length_foldl_sha256_round:
  "length st = 8 \<Longrightarrow> length (foldl sha256_round st kws) = 8"
  by (induction kws arbitrary: st) (simp_all add: length_sha256_round)

lemma length_sha256_block: "length hs = 8 \<Longrightarrow> length (sha256_block hs block) = 8"
  by (simp add: sha256_block_def length_foldl_sha256_round)

lemma length_foldl_sha256_block:
  "length hs = 8 \<Longrightarrow> length (foldl sha256_block hs blocks) = 8"
  by (induction blocks arbitrary: hs) (simp_all add: length_sha256_block)

lemma length_sha256: "length (sha256 bs) = 8"
  by (simp add: sha256_def length_foldl_sha256_block H256_def)

lemma hexDigit_class: "d < 16 \<Longrightarrow> [hexDigit d] \<in> lang rxHex"
proof -
  assume "d < 16"
  then have "d \<in> {0, 1, 2, 3, 4, 5, 6, 7, 8, 9, 10, 11, 12, 13, 14, 15}"
    by (simp; arith)
  then show ?thesis
    by (elim insertE emptyE) (simp_all add: hexDigit_def rxHex_def)
qed

lemma hex32_class: "c \<in> set (hex32 w) \<Longrightarrow> [c] \<in> lang rxHex"
  by (auto simp: hex32_def intro!: hexDigit_class)

lemma length_hex32: "length (hex32 w) = 8"
  by (simp add: hex32_def)

lemma length_concat_hex32: "length (concat (map hex32 ws)) = 8 * length ws"
  by (induction ws) (simp_all add: length_hex32)

lemma sha256_hex_length: "length (sha256_hex s) = 64"
  by (simp add: sha256_hex_def length_concat_hex32 length_sha256)

lemma sha256_hex_class: "c \<in> set (sha256_hex s) \<Longrightarrow> [c] \<in> lang rxHex"
  by (auto simp: sha256_hex_def dest: hex32_class)

lemma SHA256trunc_shape: "SHA256trunc s \<in> lang (RRep 12 rxHex)"
proof (rule lang_RRep)
  show "length (SHA256trunc s) = 12"
    by (simp add: SHA256trunc_def sha256_hex_length)
  show "\<forall>c \<in> set (SHA256trunc s). [c] \<in> lang rxHex"
    by (auto simp: SHA256trunc_def dest: in_set_takeD sha256_hex_class)
qed

lemma zeros_shape: "''000000000000'' \<in> lang (RRep 12 rxHex)"
  by (rule lang_RRep) (auto simp: rxHex_def)

lemma ja4b_direct_shape: "ja4b_direct parsed \<in> lang (RRep 12 rxHex)"
  unfolding ja4b_direct_def using SHA256trunc_shape zeros_shape by presburger

lemma ja4c_direct_shape: "ja4c_direct parsed \<in> lang (RRep 12 rxHex)"
  unfolding ja4c_direct_def using SHA256trunc_shape zeros_shape by presburger

lemma detectSNI_shape: "detectSNI ParseIP exts \<in> lang (RAlt (RChar CHR ''d'') (RChar CHR ''i''))"
  by (induction ParseIP exts rule: detectSNI.induct) auto

lemma digitChar_class: "d < 10 \<Longrightarrow> [digitChar d] \<in> lang rxDigit"
proof -
  assume "d < 10"
  then have "d \<in> {0, 1, 2, 3, 4, 5, 6, 7, 8, 9}"
    by (simp; arith)
  then show ?thesis
    by (elim insertE emptyE) (simp_all add: digitChar_def rxDigit_def)
qed

lemma natDigits_two: "10 \<le> n \<Longrightarrow> n \<le> 99 \<Longrightarrow> natDigits n = [digitChar (n div 10), digitChar (n mod 10)]"
  by (subst natDigits.simps) (simp add: natDigits.simps [of "n div 10"])

lemma fmt02d_shape: "n \<le> 99 \<Longrightarrow> fmt02d n \<in> lang (RRep 2 rxDigit)"
proof (rule lang_RRep)
  assume n: "n \<le> 99"
  show "length (fmt02d n) = 2"
    using n by (cases "n < 10") (simp_all add: fmt02d_def natDigits_two)
  show "\<forall>c \<in> set (fmt02d n). [c] \<in> lang rxDigit"
  proof (cases "n < 10")
    case True
    then show ?thesis
      using digitChar_class [of n] by (auto simp: fmt02d_def rxDigit_def)
  next
    case False
    with n have "natDigits n = [digitChar (n div 10), digitChar (n mod 10)]"
      by (simp add: natDigits_two)
    moreover from n have "n div 10 < 10" "n mod 10 < 10" by simp_all
    ultimately show ?thesis
      using False digitChar_class by (auto simp: fmt02d_def)
  qed
qed

lemma tlsVersion_shape:
  assumes "v \<in> {''769'', ''770'', ''771'', ''772''}"
  shows "getOrReturnOG v tlsVersionMapping
     \<in> lang (RAlt (RStr ''10'') (RAlt (RStr ''11'') (RAlt (RStr ''12'') (RStr ''13''))))"
  using assms by (auto simp: getOrReturnOG_def tlsVersionMapping_def)

lemma isLowerAlnum_class: "isLowerAlnum c \<Longrightarrow> [c] \<in> lang rxLowerAlnum"
  by (auto simp: isLowerAlnum_def rxLowerAlnum_def)

lemma mapped_alpn_shape:
  "map_of httpVersionMapping a = Some m \<Longrightarrow>
     m \<in> lang (RAlt (RStr ''h1'') (RAlt (RStr ''h2'') (RAlt (RStr ''h3'') (RRep 2 rxLowerAlnum))))"
  by (auto simp: httpVersionMapping_def split: if_splits)

lemma two_alnum_shape:
  "isLowerAlnum a \<Longrightarrow> isLowerAlnum b \<Longrightarrow>
     [a, b] \<in> lang (RAlt (RStr ''h1'') (RAlt (RStr ''h2'') (RAlt (RStr ''h3'') (RRep 2 rxLowerAlnum))))"
proof -
  assume "isLowerAlnum a" "isLowerAlnum b"
  then have "[a, b] \<in> lang (RRep 2 rxLowerAlnum)"
    by (intro lang_RRep) (auto dest: isLowerAlnum_class)
  then show ?thesis by simp
qed

lemma byteToString_alnum: "isLowerAlnum c \<Longrightarrow> byteToString c = [c]"
  by (auto simp: isLowerAlnum_def byteToString_def less_eq_char_def)

lemma firstALPN_shape:
  assumes "alpnInShape protocols"
  shows "firstALPN protocols
     \<in> lang (RAlt (RStr ''h1'') (RAlt (RStr ''h2'') (RAlt (RStr ''h3'') (RRep 2 rxLowerAlnum))))"
proof (cases protocols)
  case Nil
  have "''00'' = [CHR ''0'', CHR ''0'']" by simp
  moreover have "isLowerAlnum CHR ''0''" by (simp add: isLowerAlnum_def)
  ultimately have "''00'' \<in> lang (RAlt (RStr ''h1'') (RAlt (RStr ''h2'') (RAlt (RStr ''h3'') (RRep 2 rxLowerAlnum))))"
    using two_alnum_shape by metis
  with Nil show ?thesis by (simp add: firstALPN_def)
next
  case (Cons alpn rest)
  have zero: "''00'' \<in> lang (RAlt (RStr ''h1'') (RAlt (RStr ''h2'') (RAlt (RStr ''h3'') (RRep 2 rxLowerAlnum))))"
    using two_alnum_shape [of "CHR ''0''" "CHR ''0''"] by (simp add: isLowerAlnum_def)
  show ?thesis
  proof (cases "map_of httpVersionMapping alpn")
    case (Some m)
    with Cons mapped_alpn_shape [OF Some] show ?thesis by (simp add: firstALPN_def)
  next
    case None
    note none1 = this
    show ?thesis
    proof (cases "map_of httpVersionMapping (ToLower alpn)")
      case (Some m)
      with Cons none1 mapped_alpn_shape [OF Some] show ?thesis by (simp add: firstALPN_def)
    next
      case None
      with assms Cons none1 have shape: "alpn = [] \<or> (isLowerAlnum (hd alpn) \<and> isLowerAlnum (last alpn))"
        by (simp add: alpnInShape_def)
      show ?thesis
      proof (cases "alpn = []")
        case True
        with Cons none1 None zero show ?thesis by (simp add: firstALPN_def)
      next
        case False
        with shape have hl: "isLowerAlnum (hd alpn)" "isLowerAlnum (last alpn)" by auto
        from False have idx: "alpn ! 0 = hd alpn" "alpn ! (length alpn - 1) = last alpn"
          by (simp_all add: hd_conv_nth last_conv_nth)
        from False have "0 < length alpn" by simp
        then have "length alpn \<ge> 2 \<or> length alpn = 1" by arith
        then have "firstALPN protocols = [hd alpn, last alpn]"
          using Cons none1 None idx hl by (auto simp: firstALPN_def byteToString_alnum)
        with hl two_alnum_shape show ?thesis by simp
      qed
    qed
  qed
qed

lemma ja4a_direct_parts:
  "ja4a_direct ParseIP parsed v =
     ''t'' @ getOrReturnOG v tlsVersionMapping @ detectSNI ParseIP (Extensions parsed)
     @ fmt02d (min 99 (length (filter (\<lambda>cipher. \<not> IsGrease cipher) (CipherSuites parsed))))
     @ fmt02d (min 99 (length (filter
              (\<lambda>ext. \<not> IsGrease ext \<and> ext \<noteq> 0x0000 \<and> ext \<noteq> 0x0010) (AllExtensions parsed))))
     @ firstALPN (SupportedProtocols parsed)"
  by (simp add: ja4a_direct_def Let_def)

text \<open>
  Claim C3 says that the JA4 string matches
  \<^verbatim>\<open>t(10|11|12|13)[di][0-9]{2}[0-9]{2}(h1|h2|h3|[0-9a-z]{2})_[0-9a-f]{12}_[0-9a-f]{12}\<close>
  for every parsed ClientHello and negotiated version.  Part A takes the first and the
  last byte of an unmapped first ALPN value as characters, so a ClientHello offering the
  protocol \<^verbatim>\<open>Xy\<close> gets \<^verbatim>\<open>t12d0000Xy_000000000000_000000000000\<close>, which does not match.
\<close>

lemma ja4_of_uppercase_alpn:
  "CalculateJa4Direct (\<lambda>s. False)
     \<lparr>Version = 0x0303, SessionID = [], ClientRandom = [],
       CipherSuites = [], AllExtensions = [], Extensions = [], SupportedGroups = [],
       SupportedPoints = [], SupportedProtocols = [''Xy''], SignatureAlgorithms = []\<rparr> ''771''
   = ''t12d0000Xy_000000000000_000000000000''"
  by (simp add: CalculateJa4Direct_def ja4a_direct_def ja4b_direct_def ja4c_direct_def
      ja4b_r_direct_def ja4c_r_direct_def getOrReturnOG_def tlsVersionMapping_def firstALPN_def
      byteToString_def httpVersionMapping_def ToLower_def toLowerChar_def fmt02d_def digitChar_def)

theorem ja4_shape_counterexample:
  "\<not> matches ja4_regex (CalculateJa4Direct (\<lambda>s. False)
     \<lparr>Version = 0x0303, SessionID = [], ClientRandom = [],
       CipherSuites = [], AllExtensions = [], Extensions = [], SupportedGroups = [],
       SupportedPoints = [], SupportedProtocols = [''Xy''], SignatureAlgorithms = []\<rparr> ''771'')"
  unfolding ja4_of_uppercase_alpn
  by (simp add: matches_def ja4_regex_def rxDigit_def rxLowerAlnum_def rxHex_def eval_nat_numeral)

text \<open>
  Claim C3, amended.  The JA4 string matches the regular expression whenever the
  negotiated version is one of 769, 770, 771, 772 and the first ALPN value, if there is a
  non-empty one that is not a mapped protocol name, begins and ends with a byte in
  \<^verbatim>\<open>[0-9a-z]\<close>.
\<close>

theorem ja4_shape:
  assumes "negotiatedVersion \<in> {''769'', ''770'', ''771'', ''772''}"
    and "alpnInShape (SupportedProtocols parsed)"
  shows "matches ja4_regex (CalculateJa4Direct ParseIP parsed negotiatedVersion)"
proof -
  have "''t'' @ (getOrReturnOG negotiatedVersion tlsVersionMapping
        @ (detectSNI ParseIP (Extensions parsed)
        @ (fmt02d (min 99 (length (filter (\<lambda>cipher. \<not> IsGrease cipher) (CipherSuites parsed))))
        @ (fmt02d (min 99 (length (filter
              (\<lambda>ext. \<not> IsGrease ext \<and> ext \<noteq> 0x0000 \<and> ext \<noteq> 0x0010) (AllExtensions parsed))))
        @ (firstALPN (SupportedProtocols parsed)
        @ (''_'' @ (ja4b_direct parsed @ (''_'' @ ja4c_direct parsed))))))))
      \<in> lang ja4_regex"
    unfolding ja4_regex_def
    by (intro lang_RSeqI tlsVersion_shape [OF assms(1)] detectSNI_shape fmt02d_shape
          firstALPN_shape [OF assms(2)] ja4b_direct_shape ja4c_direct_shape) simp_all
  then show ?thesis
    by (simp add: matches_iff_lang CalculateJa4Direct_def ja4a_direct_parts)
qed

theorem ja4_shape_witness:
  "''772'' \<in> {''769'', ''770'', ''771'', ''772''}
   \<and> alpnInShape [''h2'']
   \<and> matches ja4_regex (CalculateJa4Direct (\<lambda>s. False)
     \<lparr>Version = 0x0303, SessionID = [], ClientRandom = [],
       CipherSuites = [0x1301], AllExtensions = [0x000d], Extensions = [MapExt (Some ''example.com'')],
       SupportedGroups = [], SupportedPoints = [], SupportedProtocols = [''h2''],
       SignatureAlgorithms = [0x0403]\<rparr> ''772'')"
  using ja4_shape [of "''772''"
     "\<lparr>Version = 0x0303, SessionID = [], ClientRandom = [],
       CipherSuites = [0x1301], AllExtensions = [0x000d], Extensions = [MapExt (Some ''example.com'')],
       SupportedGroups = [], SupportedPoints = [], SupportedProtocols = [''h2''],
       SignatureAlgorithms = [0x0403]\<rparr>" "\<lambda>s. False"]
  by (simp add: alpnInShape_def httpVersionMapping_def)

subsection \<open>JA4 part C\<close>

lemma of_char_hexDigit:
  "d < 16 \<Longrightarrow> of_char (hexDigit d) = (if d < 10 then 48 + d else 87 + d)"
proof -
  assume "d < 16"
  then have "d \<in> {0, 1, 2, 3, 4, 5, 6, 7, 8, 9, 10, 11, 12, 13, 14, 15}"
    by (simp; arith)
  then show ?thesis
    by (elim insertE emptyE) (simp_all add: hexDigit_def)
qed

lemma hexDigit_less: "a < 16 \<Longrightarrow> b < 16 \<Longrightarrow> hexDigit a < hexDigit b \<longleftrightarrow> a < b"
  by (simp add: less_char_def of_char_hexDigit)

lemma hexDigit_eq: "a < 16 \<Longrightarrow> b < 16 \<Longrightarrow> hexDigit a = hexDigit b \<longleftrightarrow> a = b"
proof
  assume "a < 16" "b < 16" "hexDigit a = hexDigit b"
  then have "(of_char (hexDigit a) :: nat) = of_char (hexDigit b)" by simp
  with \<open>a < 16\<close> \<open>b < 16\<close> show "a = b"
    by (simp add: of_char_hexDigit split: if_splits)
qed simp

lemma hex4_unfold:
  "hex4 w = [hexDigit (unat w div 4096 mod 16), hexDigit (unat w div 256 mod 16),
             hexDigit (unat w div 16 mod 16), hexDigit (unat w mod 16)]"
proof -
  have "[0..<4] = [0, 1, 2, 3]"
    by (simp add: upt_rec)
  then show ?thesis
    by (simp add: hex4_def)
qed

lemma digit_expansion:
  fixes n :: nat
  assumes "n < 65536"
  shows "4096 * (n div 4096 mod 16) + 256 * (n div 256 mod 16) + 16 * (n div 16 mod 16) + n mod 16 = n"
proof -
  define q1 q2 q3 where "q1 = n div 16" and "q2 = n div 256" and "q3 = n div 4096"
  define r0 r1 r2 where "r0 = n mod 16" and "r1 = q1 mod 16" and "r2 = q2 mod 16"
  have q2: "q2 = q1 div 16" and q3: "q3 = q2 div 16"
    by (simp_all add: q1_def q2_def q3_def div_mult2_eq [symmetric])
  have e0: "n = 16 * q1 + r0" by (simp add: q1_def r0_def)
  have e1: "q1 = 16 * q2 + r1" by (simp add: q2 r1_def)
  have e2: "q2 = 16 * q3 + r2" by (simp add: q3 r2_def)
  have "q3 < 16" using assms by (simp add: q3_def)
  then have e3: "q3 mod 16 = q3" by simp
  have "4096 * (q3 mod 16) + 256 * r2 + 16 * r1 + r0 = n"
    unfolding e3 using e0 e1 e2 by linarith
  then show ?thesis
    by (simp only: q1_def q2_def q3_def r0_def r1_def r2_def)
qed

lemma lex4:
  fixes a3 a2 a1 a0 b3 b2 b1 b0 :: nat
  assumes "a2 < 16" "a1 < 16" "a0 < 16" "b2 < 16" "b1 < 16" "b0 < 16"
    and "4096 * a3 + 256 * a2 + 16 * a1 + a0 \<le> 4096 * b3 + 256 * b2 + 16 * b1 + b0"
  shows "a3 < b3 \<or> a3 = b3 \<and> (a2 < b2 \<or> a2 = b2 \<and> (a1 < b1 \<or> a1 = b1 \<and> a0 \<le> b0))"
  using assms by arith

lemma hex4_mono: "x \<le> y \<Longrightarrow> hex4 x \<le> hex4 y"
proof -
  assume "x \<le> y"
  then have le: "unat x \<le> unat y" by (simp add: word_le_nat_alt)
  have bx: "unat x < 65536" using unsigned_less [of x, where 'a = nat] by simp
  have bnd_y: "unat y < 65536" using unsigned_less [of y, where 'a = nat] by simp
  have lex: "unat x div 4096 mod 16 < unat y div 4096 mod 16
      \<or> unat x div 4096 mod 16 = unat y div 4096 mod 16
        \<and> (unat x div 256 mod 16 < unat y div 256 mod 16
          \<or> unat x div 256 mod 16 = unat y div 256 mod 16
            \<and> (unat x div 16 mod 16 < unat y div 16 mod 16
              \<or> unat x div 16 mod 16 = unat y div 16 mod 16
                \<and> unat x mod 16 \<le> unat y mod 16))"
  proof (rule lex4)
    show "4096 * (unat x div 4096 mod 16) + 256 * (unat x div 256 mod 16)
        + 16 * (unat x div 16 mod 16) + unat x mod 16
      \<le> 4096 * (unat y div 4096 mod 16) + 256 * (unat y div 256 mod 16)
        + 16 * (unat y div 16 mod 16) + unat y mod 16"
      by (simp only: digit_expansion [OF bx] digit_expansion [OF bnd_y] le)
  qed simp_all
  have d: "unat w div k mod 16 < 16" "unat w mod 16 < 16" for w :: word16 and k
    by simp_all
  show ?thesis
    unfolding hex4_unfold Cons_le_Cons
    using lex
    by (simp only: hexDigit_less [OF d(1) d(1)] hexDigit_less [OF d(2) d(2)]
          hexDigit_eq [OF d(1) d(1)] hexDigit_eq [OF d(2) d(2)] le_less [of "hexDigit _"])
       (auto simp: Cons_le_Cons)
qed

lemma sort_map_hex4: "sort (map hex4 xs) = map hex4 (sort xs)"
proof (rule properties_for_sort)
  show "mset (map hex4 (sort xs)) = mset (map hex4 xs)" by simp
  have "sorted_wrt (\<le>) (sort xs)" by simp
  then have "sorted_wrt (\<lambda>x y. hex4 x \<le> hex4 y) (sort xs)"
    by (rule sorted_wrt_mono_rel [rotated]) (simp add: hex4_mono)
  then show "sorted (map hex4 (sort xs))"
    by (simp add: sorted_map)
qed

text \<open>
  Claim C2.  The raw part C computed by the code (identifiers rendered first, then sorted
  as strings) is the part C of the specification: the extension identifiers that are not
  GREASE, SNI, ALPN or padding, sorted ascending as numbers, each as four lowercase hex
  digits, comma-joined, followed by an underscore and the comma-joined signature
  algorithms in wire order when there is at least one.  The hashed part C is the first
  12 hex digits of the SHA-256 of that string, and \<^verbatim>\<open>000000000000\<close> when the string is
  empty.
\<close>

theorem ja4c_matches_spec:
  "ja4c_r_direct parsed = spec_ja4c_raw parsed
   \<and> ja4c_direct parsed =
       (if spec_ja4c_raw parsed = [] then ''000000000000''
        else take 12 (sha256_hex (spec_ja4c_raw parsed)))"
proof -
  have raw: "ja4c_r_direct parsed = spec_ja4c_raw parsed"
    by (simp add: ja4c_r_direct_def spec_ja4c_raw_def Let_def sort_map_hex4)
  show ?thesis
    by (simp add: raw ja4c_direct_def SHA256trunc_def)
qed

subsection \<open>The body channel of a stream\<close>













text \<open>A closed channel stays closed, and is not closed again.\<close>

lemma closeBody_closed: "bodyClosed s \<Longrightarrow> closeBody s = s"
  by (simp add: closeBody_def)



























subsection \<open>HPACK and the captured frames\<close>

lemmas hpack_eval =
  DecodeFull_def decodeBlock.simps parseHeaderFieldRepr_def parseFieldIndexed_def
  parseFieldLiteral_def parseDynamicTableSizeUpdate_def readVarInt_def readString_def
  decodeString_def tableAt_def staticTable_def NewDecoder_def evict.simps tableSize_def

lemma decode_first_block:
  "DecodeFull huffman (NewDecoder 4096) [CHR 0x82, CHR 0x84, CHR 0x87, CHR 0x7a, CHR 0x01, CHR ''x'']
     = (\<lparr>dynTab = [(''user-agent'', ''x'')], maxSize = 4096, allowedMaxSize = 4096,
          firstField = True\<rparr>,
        Some [('':method'', ''GET''), ('':path'', ''/''), ('':scheme'', ''https''),
              (''user-agent'', ''x'')])"
  by (simp add: hpack_eval)

lemma decode_second_block:
  "DecodeFull huffman
     \<lparr>dynTab = [(''user-agent'', ''x'')], maxSize = 4096, allowedMaxSize = 4096, firstField = True\<rparr>
     [CHR 0x82, CHR 0x84, CHR 0x87, CHR 0xbe]
     = (\<lparr>dynTab = [(''user-agent'', ''x'')], maxSize = 4096, allowedMaxSize = 4096,
          firstField = True\<rparr>,
        Some [('':method'', ''GET''), ('':path'', ''/''), ('':scheme'', ''https''),
              (''user-agent'', ''x'')])"
  by (simp add: hpack_eval)

lemma decode_second_block_fresh:
  "snd (DecodeFull huffman (NewDecoder 4096) [CHR 0x82, CHR 0x84, CHR 0x87, CHR 0xbe]) = None"
  by (simp add: hpack_eval)

text \<open>
  Claim C1.  The header fields handed to the request of each stream are those the client
  encoded, also when a later block refers to the dynamic table: that part holds, since
  the frame loop decodes with the decoder of the connection.  The header list attached
  to the captured HEADERS frame is decoded by \<^verbatim>\<open>convertFrame\<close> with a new decoder for each
  frame.  On a connection whose first request (stream 1) sends \<^verbatim>\<open>user-agent: x\<close> as a
  literal with incremental indexing and whose second request (stream 3) refers to it by
  index 62, the request of stream 3 receives the four fields, but the captured frame of
  stream 3 has no headers at all, and the JA4H computed for stream 3 is that of an empty
  header list.
\<close>

theorem captured_headers_ignore_dynamic_table:
  "requests (foldl (processHeadersFrame Quote huffman) newFrameLoopState
      [HeadersFrame 1 [CHR 0x82, CHR 0x84, CHR 0x87, CHR 0x7a, CHR 0x01, CHR ''x''] True None,
       HeadersFrame 3 [CHR 0x82, CHR 0x84, CHR 0x87, CHR 0xbe] True None])
     = [(1, [('':method'', ''GET''), ('':path'', ''/''), ('':scheme'', ''https''),
             (''user-agent'', ''x'')], True),
        (3, [('':method'', ''GET''), ('':path'', ''/''), ('':scheme'', ''https''),
             (''user-agent'', ''x'')], True)]
   \<and> map Headers (streamFrames (foldl (processHeadersFrame Quote huffman) newFrameLoopState
      [HeadersFrame 1 [CHR 0x82, CHR 0x84, CHR 0x87, CHR 0x7a, CHR 0x01, CHR ''x''] True None,
       HeadersFrame 3 [CHR 0x82, CHR 0x84, CHR 0x87, CHR 0xbe] True None]) 3) = [[]]
   \<and> requestJA4H (foldl (processHeadersFrame Quote huffman) newFrameLoopState
      [HeadersFrame 1 [CHR 0x82, CHR 0x84, CHR 0x87, CHR 0x7a, CHR 0x01, CHR ''x''] True None,
       HeadersFrame 3 [CHR 0x82, CHR 0x84, CHR 0x87, CHR 0xbe] True None]) 3
      [('':method'', ''GET''), ('':path'', ''/''), ('':scheme'', ''https''), (''user-agent'', ''x'')]
     = ''ge200_000000000000_000000000000''"
proof -
  have ja4h: "CalculateJA4H ''GET'' ''h2'' [] = ''ge200_000000000000_000000000000''"
    by (simp add: CalculateJA4H_def getMethodPrefix_def getVersionString_def countHeaders_def
        calculateHeaderHash_def calculateCookieHash_def headerNames_def cookieValues_def
        ToLower_def toLowerChar_def fmt02d_def digitChar_def)
  show ?thesis
    by (simp add: processHeadersFrame_def newFrameLoopState_def convertFrame_def
        decode_first_block decode_second_block decode_second_block_fresh
        decode_first_block [unfolded NewDecoder_def] requestJA4H_def requestMethod_def ja4h
        Let_def NewDecoder_def [symmetric])
qed

end
